theory Spec2Isabelle
  imports Main "HOL-Library.Word" "HOL-Library.Code_Target_Nat"
begin

section \<open>The request handler of the helper agent (RequestHandler.h)\<close>

text \<open>
  A shallow embedding of \<^verbatim>\<open>ext/common/agents/HelperAgent/RequestHandler.h\<close>: the
  \<^verbatim>\<open>Client\<close> object is a record, each member function of \<^verbatim>\<open>RequestHandler\<close> is a HOL
  function from the client before the call to the client after it, and every way in
  which the C++ leaves the normal control flow (a failed \<^verbatim>\<open>assert\<close>, \<^verbatim>\<open>abort()\<close>, the
  dereference of an empty \<^verbatim>\<open>shared_ptr\<close>, an exception nobody catches, pointer arithmetic
  on unrelated objects) is a value of the type \<open>failure\<close>.

  Byte strings (\<^verbatim>\<open>StaticString\<close>, \<^verbatim>\<open>std::string\<close>) are \<open>string\<close>, a list of 8-bit characters.
\<close>

subsection \<open>Data\<close>

datatype client_state =
    BEGIN_READING_CONNECT_PASSWORD
  | STILL_READING_CONNECT_PASSWORD
  | READING_HEADER
  | BUFFERING_REQUEST_BODY
  | CHECKING_OUT_SESSION
  | SENDING_HEADER_TO_APP
  | FORWARDING_BODY_TO_APP
  | WRITING_SIMPLE_RESPONSE
  | DISCONNECTED

text \<open>The position of a state in the \<^verbatim>\<open>enum\<close>, for the comparison \<^verbatim>\<open>state < FORWARDING_BODY_TO_APP\<close>.\<close>

fun state_rank :: "client_state \<Rightarrow> nat" where
  "state_rank BEGIN_READING_CONNECT_PASSWORD = 0"
| "state_rank STILL_READING_CONNECT_PASSWORD = 1"
| "state_rank READING_HEADER = 2"
| "state_rank BUFFERING_REQUEST_BODY = 3"
| "state_rank CHECKING_OUT_SESSION = 4"
| "state_rank SENDING_HEADER_TO_APP = 5"
| "state_rank FORWARDING_BODY_TO_APP = 6"
| "state_rank WRITING_SIMPLE_RESPONSE = 7"
| "state_rank DISCONNECTED = 8"

datatype failure =
    AssertionFailed
  | Aborted
  | NullPointerDereference
  | UndefinedBehaviour
  | UncaughtException string

text \<open>A function that can fail returns \<open>Inl\<close> of the failure; \<open>and_then\<close> sequences two of them.\<close>

definition and_then :: "failure + 'a \<Rightarrow> ('a \<Rightarrow> failure + 'b) \<Rightarrow> failure + 'b" where
  "and_then r f = (case r of Inl e \<Rightarrow> Inl e | Inr x \<Rightarrow> f x)"

text \<open>
  The log. Only the calls a claim speaks about are kept: every \<^verbatim>\<open>RH_WARN\<close> / \<^verbatim>\<open>P_WARN\<close>
  and the level-2 trace of \<^verbatim>\<open>checkConnectPassword\<close>, which prints the bytes it is about to
  compare (the C escaping of \<^verbatim>\<open>cEscapeString\<close> is left out).
\<close>

datatype log_line = WARN string | TRACE nat string

type_synonym HeaderMap = "string \<rightharpoonup> string"

datatype scgi_error = LIMIT_REACHED | INVALID_DATA

datatype scgi_state = SCGI_READING | SCGI_DONE | SCGI_ERROR scgi_error

text \<open>
  \<^verbatim>\<open>ScgiRequestParser\<close> (its source is not part of this file): the state of the parser, the
  header map it produced and the serialized header block \<^verbatim>\<open>getHeaderData()\<close> returns.
\<close>

record ScgiRequestParser =
  scgi_status :: scgi_state
  scgi_headers :: HeaderMap
  getHeaderData :: string

text \<open>The fields of \<^verbatim>\<open>ApplicationPool2::Options\<close> that the request handler reads or writes.\<close>

record Options =
  appRoot :: string
  appType :: string
  spawnMethod :: string
  startCommand :: string
  loadShellEnvvars :: bool
  environment :: string

datatype errno = EAGAIN | EPIPE | ECONNRESET | OtherErrno nat

text \<open>What a \<^verbatim>\<open>write\<close> on a socket returns: the number of bytes taken, or \<open>-1\<close> with an error number.\<close>

datatype write_result = Wrote nat | Failed errno

datatype initiate_outcome = Initiated | ThrowsSystemException string | ThrowsOtherException string

text \<open>
  A session of the pool: the worker's socket, the handshake password, what
  \<^verbatim>\<open>session->initiate()\<close> is going to do when it is called, and what the kernel is
  going to answer to the first write on the worker's socket (the header).
\<close>

record Session =
  session_fd :: nat
  connectPassword :: string
  initiate_result :: initiate_outcome
  header_write_result :: write_result

text \<open>
  The error a pool callback can carry (\<^verbatim>\<open>ExceptionPtr\<close>): a \<^verbatim>\<open>SpawnException\<close> with its
  message, error page, HTML flag and annotations, or any other exception with its message.
\<close>

record SpawnException =
  spawn_what :: string
  errorPage :: string
  isHTML :: bool
  annotations :: "(string \<times> string) list"

datatype pool_exception = IsSpawnException SpawnException | OtherException string

fun what :: "pool_exception \<Rightarrow> string" where
  "what (IsSpawnException e) = spawn_what e"
| "what (OtherException msg) = msg"

text \<open>
  \<^verbatim>\<open>dynamic_pointer_cast<SpawnException>(e)\<close>: the same object when it is a
  \<^verbatim>\<open>SpawnException\<close>, and an empty pointer otherwise; it does not throw.
\<close>

fun dynamic_pointer_cast_SpawnException :: "pool_exception \<Rightarrow> SpawnException option" where
  "dynamic_pointer_cast_SpawnException (IsSpawnException e) = Some e"
| "dynamic_pointer_cast_SpawnException (OtherException msg) = None"

text \<open>
  What the pool does with one \<^verbatim>\<open>asyncGet\<close>: it calls the callback before \<^verbatim>\<open>asyncGet\<close>
  returns, with a session or an error, or it calls it later.
\<close>

datatype pool_reply = CallbackLater | CallbackNow "Session option" "pool_exception option"

text \<open>
  Modelled from the spec: \<^verbatim>\<open>FileBackedPipe\<close> is not in the sources. Section 4.1: \<^verbatim>\<open>write\<close>
  appends to the pipe and returns true if the data was accepted in memory and false
  if the pipe has begun spilling to disk, which it does when the in-memory watermark
  (\<open>threshold\<close>) is exceeded; the pipe stays committing until its commit signal.
\<close>

record FileBackedPipe =
  pipe_started :: bool
  pipe_ended :: bool
  committingToDisk :: bool
  buffered :: string
  threshold :: nat

definition pipe_write :: "string \<Rightarrow> FileBackedPipe \<Rightarrow> bool \<times> FileBackedPipe" where
  "pipe_write data p =
     (let p' = p\<lparr>buffered := buffered p @ data,
                 committingToDisk := (committingToDisk p \<or> threshold p < length (buffered p @ data))\<rparr>
      in (\<not> committingToDisk p', p'))"

definition pipe_end :: "FileBackedPipe \<Rightarrow> FileBackedPipe" where
  "pipe_end p = p\<lparr>pipe_ended := True\<rparr>"

definition pipe_start :: "FileBackedPipe \<Rightarrow> FileBackedPipe" where
  "pipe_start p = p\<lparr>pipe_started := True\<rparr>"

definition pipe_stop :: "FileBackedPipe \<Rightarrow> FileBackedPipe" where
  "pipe_stop p = p\<lparr>pipe_started := False\<rparr>"

text \<open>
  \<^verbatim>\<open>HttpHeaderBufferer\<close> is not in the sources; the model keeps what the code asks of it:
  \<^verbatim>\<open>acceptingInput()\<close>, \<^verbatim>\<open>hasError()\<close>, the bytes of \<^verbatim>\<open>getData()\<close>, and whether \<^verbatim>\<open>getData()\<close>
  points to the bytes of the last \<^verbatim>\<open>feed\<close> (the comparison of line 699).
\<close>

record HttpHeaderBufferer =
  acceptingInput :: bool
  hasError :: bool
  bufferer_data :: string
  data_is_fed :: bool

definition new_HttpHeaderBufferer :: HttpHeaderBufferer where
  "new_HttpHeaderBufferer =
     \<lparr>acceptingInput = True, hasError = False, bufferer_data = [], data_is_fed = False\<rparr>"

text \<open>
  The \<^verbatim>\<open>Client\<close> object. \<open>requestHandler\<close> is true when the back pointer is not \<^verbatim>\<open>NULL\<close>
  (\<^verbatim>\<open>connected()\<close>). The two \<^verbatim>\<open>unsigned int\<close> counters are 32-bit words, so \<^verbatim>\<open>++\<close> and
  \<^verbatim>\<open>--\<close> wrap around as in C++. \<open>bufferedConnectPassword_data\<close> is \<open>None\<close> for the \<^verbatim>\<open>NULL\<close>
  pointer and otherwise holds the bytes copied into the buffer so far.
  The last four fields are not members of \<^verbatim>\<open>Client\<close>: they record what the client did
  to the world (bytes written to the worker's socket, half-closed sockets, the requests
  handed to the pool, the log).
\<close>

record Client =
  requestHandler :: bool
  fd :: "nat option"
  state :: client_state
  backgroundOperations :: "32 word"
  bufferedConnectPassword_data :: "string option"
  bufferedConnectPassword_alreadyRead :: nat
  timeoutTimer_active :: bool
  options :: Options
  scgiParser :: ScgiRequestParser
  session :: "Session option"
  sessionCheckoutTry :: "32 word"
  requestBodyIsBuffered :: bool
  sessionCheckedOut :: bool
  responseHeaderSeen :: bool
  responseHeaderBufferer :: HttpHeaderBufferer
  clientInput_started :: bool
  clientBodyBuffer :: FileBackedPipe
  clientOutputPipe :: FileBackedPipe
  clientOutputWatcher_active :: bool
  appInput_started :: bool
  appOutputBuffer :: string
  appOutputWatcher_active :: bool
  worker_received :: string
  worker_write_closed :: bool
  client_read_closed :: bool
  asyncGet_calls :: "Options list"
  logged :: "log_line list"

definition connected :: "Client \<Rightarrow> bool" where
  "connected c = requestHandler c"

subsection \<open>Request options\<close>

text \<open>
  \<^verbatim>\<open>getBoolOption\<close> (lines 474-481): \<^verbatim>\<open>getHeaderIterator(name)\<close> is the lookup in the header
  map, and the comparison with \<^verbatim>\<open>"true"\<close> is \<^verbatim>\<open>StaticString\<close> equality, byte for byte.
\<close>

definition getBoolOption :: "Client \<Rightarrow> string \<Rightarrow> bool \<Rightarrow> bool" where
  "getBoolOption client name defaultValue =
     (case scgi_headers (scgiParser client) name of
        Some v \<Rightarrow> v = ''true''
      | None \<Rightarrow> defaultValue)"

text \<open>The two overloads of \<^verbatim>\<open>fillPoolOption\<close> (lines 1275-1287), returning the new field.\<close>

definition fillPoolOption_string :: "Client \<Rightarrow> string \<Rightarrow> string \<Rightarrow> string" where
  "fillPoolOption_string client field name =
     (case scgi_headers (scgiParser client) name of
        Some v \<Rightarrow> v
      | None \<Rightarrow> field)"

definition fillPoolOption_bool :: "Client \<Rightarrow> bool \<Rightarrow> string \<Rightarrow> bool" where
  "fillPoolOption_bool client field name =
     (case scgi_headers (scgiParser client) name of
        Some v \<Rightarrow> v = ''true''
      | None \<Rightarrow> field)"

subsection \<open>What the request handler is configured with\<close>

text \<open>
  Code and constants the header uses but does not contain, as parameters:
  \<open>requestSocketPassword\<close> is \<^verbatim>\<open>options.requestSocketPassword\<close> of \<^verbatim>\<open>AgentOptions\<close>,
  \<open>PASSENGER_VERSION\<close> the macro of \<^verbatim>\<open>Constants.h\<close>, \<open>getStatusCodeAndReasonPhrase\<close> the table
  of \<^verbatim>\<open>HttpConstants.h\<close> (\<open>None\<close> for \<^verbatim>\<open>NULL\<close>), \<open>stringToInt\<close> and \<open>toString\<close> the conversions
  of \<^verbatim>\<open>StrIntUtils.h\<close>, \<open>scgi_feed\<close> the \<^verbatim>\<open>feed\<close> of \<^verbatim>\<open>ScgiRequestParser\<close> (bytes consumed and the
  parser after them), \<open>scgi_rebuildData\<close> its \<^verbatim>\<open>rebuildData\<close>, \<open>headerBufferer_feed\<close> the
  \<^verbatim>\<open>feed\<close> of \<^verbatim>\<open>HttpHeaderBufferer\<close> (the bufferer after the bytes and the number of bytes
  consumed), \<open>readAll\<close> the contents of a file, \<open>Template_apply\<close> the template engine and
  \<open>resourcesDir\<close> the directory of the resource locator.
\<close>

record Externals =
  requestSocketPassword :: string
  PASSENGER_VERSION :: string
  getStatusCodeAndReasonPhrase :: "int \<Rightarrow> string option"
  stringToInt :: "string \<Rightarrow> int"
  toString :: "int \<Rightarrow> string"
  scgi_feed :: "ScgiRequestParser \<Rightarrow> string \<Rightarrow> nat \<times> ScgiRequestParser"
  scgi_rebuildData :: "bool \<Rightarrow> ScgiRequestParser \<Rightarrow> ScgiRequestParser"
  headerBufferer_feed :: "HttpHeaderBufferer \<Rightarrow> string \<Rightarrow> HttpHeaderBufferer \<times> nat"
  readAll :: "string \<Rightarrow> string"
  Template_apply :: "string \<Rightarrow> (string \<rightharpoonup> string) \<Rightarrow> string"
  resourcesDir :: string

abbreviation CR :: char where "CR \<equiv> CHR 0x0D"
abbreviation LF :: char where "LF \<equiv> CHR 0x0A"
abbreviation NUL :: char where "NUL \<equiv> CHR 0x00"
abbreviation SP :: char where "SP \<equiv> CHR 0x20"
abbreviation CRLF :: string where "CRLF \<equiv> [CR, LF]"

text \<open>\<^verbatim>\<open>toupper\<close> of the C locale.\<close>

definition toupper :: "char \<Rightarrow> char" where
  "toupper ch = (let n = (of_char ch :: nat) in if 97 \<le> n \<and> n \<le> 122 then char_of (n - 32) else ch)"

subsection \<open>The life cycle of a client\<close>

definition freeBufferedConnectPassword :: "Client \<Rightarrow> Client" where
  "freeBufferedConnectPassword client =
     (if bufferedConnectPassword_data client \<noteq> None
      then client\<lparr>bufferedConnectPassword_data := None, bufferedConnectPassword_alreadyRead := 0\<rparr>
      else client)"

definition resetPrimitiveFields :: "Client \<Rightarrow> Client" where
  "resetPrimitiveFields client =
     (freeBufferedConnectPassword
        (client\<lparr>requestHandler := False, state := DISCONNECTED, backgroundOperations := 0,
                requestBodyIsBuffered := False\<rparr>))
       \<lparr>sessionCheckedOut := False, sessionCheckoutTry := 0, responseHeaderSeen := False\<rparr>"

definition new_pipe :: "nat \<Rightarrow> FileBackedPipe" where
  "new_pipe thr = \<lparr>pipe_started = False, pipe_ended = False, committingToDisk = False,
                   buffered = [], threshold = thr\<rparr>"

definition pipe_reset :: "FileBackedPipe \<Rightarrow> FileBackedPipe" where
  "pipe_reset p = new_pipe (threshold p)"

text \<open>
  The constructor \<^verbatim>\<open>Client()\<close>. The default-constructed \<^verbatim>\<open>Options\<close> and the watermark of the
  two pipes are parameters.
\<close>

definition new_Client :: "Options \<Rightarrow> nat \<Rightarrow> Client" where
  "new_Client opts thr =
     resetPrimitiveFields
       \<lparr>requestHandler = False, fd = None, state = DISCONNECTED, backgroundOperations = 0,
        bufferedConnectPassword_data = None, bufferedConnectPassword_alreadyRead = 0,
        timeoutTimer_active = False, options = opts,
        scgiParser = \<lparr>scgi_status = SCGI_READING, scgi_headers = Map.empty, getHeaderData = []\<rparr>,
        session = None, sessionCheckoutTry = 0, requestBodyIsBuffered = False,
        sessionCheckedOut = False, responseHeaderSeen = False,
        responseHeaderBufferer = new_HttpHeaderBufferer, clientInput_started = False,
        clientBodyBuffer = new_pipe thr, clientOutputPipe = new_pipe thr,
        clientOutputWatcher_active = False, appInput_started = False, appOutputBuffer = [],
        appOutputWatcher_active = False, worker_received = [], worker_write_closed = False,
        client_read_closed = False, asyncGet_calls = [], logged = []\<rparr>"

definition associate :: "Client \<Rightarrow> nat \<Rightarrow> failure + Client" where
  "associate client new_fd =
     (if requestHandler client then Inl AssertionFailed
      else Inr (client\<lparr>requestHandler := True, fd := Some new_fd,
                       state := BEGIN_READING_CONNECT_PASSWORD,
                       clientInput_started := True,
                       clientBodyBuffer := pipe_reset (clientBodyBuffer client),
                       clientOutputPipe := pipe_start (pipe_reset (clientOutputPipe client)),
                       timeoutTimer_active := True\<rparr>))"

definition discard :: "Client \<Rightarrow> failure + Client" where
  "discard client =
     (if \<not> requestHandler client then Inl AssertionFailed
      else Inr ((resetPrimitiveFields client)
                  \<lparr>fd := None,
                   clientInput_started := False,
                   clientBodyBuffer := pipe_stop (clientBodyBuffer client),
                   clientOutputPipe := pipe_stop (clientOutputPipe client),
                   clientOutputWatcher_active := False,
                   appInput_started := False,
                   appOutputWatcher_active := False,
                   timeoutTimer_active := False\<rparr>))"

definition verifyInvariants :: "Client \<Rightarrow> failure + Client" where
  "verifyInvariants client =
     (if (\<not> requestHandler client) = (fd client = None)
         \<and> (\<not> requestHandler client) = (state client = DISCONNECTED)
      then Inr client else Inl AssertionFailed)"

text \<open>
  \<^verbatim>\<open>disconnect\<close> (lines 435-443); the table of clients belongs to the request handler
  and is not part of the client.
\<close>

definition disconnect :: "Client \<Rightarrow> failure + Client" where
  "disconnect client = and_then (discard client) verifyInvariants"

definition disconnectWithError :: "Client \<Rightarrow> string \<Rightarrow> failure + Client" where
  "disconnectWithError client message =
     disconnect (client\<lparr>logged := logged client @ [WARN (''Disconnecting with error: '' @ message)]\<rparr>)"

text \<open>The text of \<^verbatim>\<open>strerror\<close> and the error number are left out of the two messages.\<close>

definition disconnectWithClientSocketWriteError :: "Client \<Rightarrow> errno \<Rightarrow> failure + Client" where
  "disconnectWithClientSocketWriteError client e =
     disconnectWithError client ''client socket write error: ''"

definition disconnectWithAppSocketWriteError :: "Client \<Rightarrow> errno \<Rightarrow> failure + Client" where
  "disconnectWithAppSocketWriteError client e =
     disconnectWithError client ''app socket write error: ''"

subsection \<open>The error response\<close>

text \<open>
  \<^verbatim>\<open>writeErrorResponse\<close> (lines 483-540). The three writes go to the pipe object itself,
  not through \<^verbatim>\<open>writeToClientOutputPipe\<close>.
\<close>

definition error_page_params :: "Client \<Rightarrow> string \<Rightarrow> string \<Rightarrow> SpawnException option \<Rightarrow> (string \<rightharpoonup> string)" where
  "error_page_params client css message e =
     (let params = [''CSS'' \<mapsto> css, ''APP_ROOT'' \<mapsto> appRoot (options client),
                    ''ENVIRONMENT'' \<mapsto> environment (options client), ''MESSAGE'' \<mapsto> message]
      in case e of
           Some e' \<Rightarrow>
             fold (\<lambda>(name, v) m. m(map toupper name \<mapsto> v)) (annotations e')
               (params(''TITLE'' \<mapsto> ''Web application could not be started''))
         | None \<Rightarrow> params(''TITLE'' \<mapsto> ''Internal server error''))"

definition error_page_data :: "Externals \<Rightarrow> Client \<Rightarrow> string \<Rightarrow> SpawnException option \<Rightarrow> string" where
  "error_page_data ext client message e =
     (let templatesDir = resourcesDir ext @ ''/templates'' in
      if getBoolOption client ''PASSENGER_FRIENDLY_ERROR_PAGES'' True then
        (let cssFile = templatesDir @ ''/error_layout.css'';
             errorLayoutFile = templatesDir @ ''/error_layout.html.template'';
             generalErrorFile =
               (if e \<noteq> None \<and> isHTML (the e)
                then templatesDir @ ''/general_error_with_html.html.template''
                else templatesDir @ ''/general_error.html.template'');
             css = readAll ext cssFile;
             params = error_page_params client css message e;
             content = Template_apply ext (readAll ext generalErrorFile) params;
             params' = params(''CONTENT'' \<mapsto> content)
         in Template_apply ext (readAll ext errorLayoutFile) params')
      else readAll ext (templatesDir @ ''/undisclosed_error.html.template''))"

definition error_response_header :: "Externals \<Rightarrow> Client \<Rightarrow> string \<Rightarrow> string" where
  "error_response_header ext client data =
     (if getBoolOption client ''PASSENGER_PRINT_STATUS_LINE'' True
      then ''HTTP/1.1 500 Internal Server Error'' @ CRLF else [])
     @ ''Status: 500 Internal Server Error'' @ CRLF
     @ ''Content-Length: '' @ toString ext (int (length data)) @ CRLF
     @ ''Content-Type: text/html; charset=UTF-8'' @ CRLF
     @ CRLF"

definition writeErrorResponse :: "Externals \<Rightarrow> Client \<Rightarrow> string \<Rightarrow> SpawnException option \<Rightarrow> failure + Client" where
  "writeErrorResponse ext client message e =
     (if \<not> state_rank (state client) < state_rank FORWARDING_BODY_TO_APP then Inl AssertionFailed
      else
        (let client = client\<lparr>state := WRITING_SIMPLE_RESPONSE\<rparr>;
             data = error_page_data ext client message e;
             header = error_response_header ext client data;
             pipe = snd (pipe_write header (clientOutputPipe client));
             pipe = snd (pipe_write data pipe);
             pipe = pipe_end pipe
         in Inr (client\<lparr>clientOutputPipe := pipe\<rparr>)))"

subsection \<open>From the worker to the client: the response header\<close>

text \<open>
  A \<^verbatim>\<open>Header\<close> is a pair of \<^verbatim>\<open>StaticString\<close>s that point into the header block. The model
  keeps their bytes and their offsets in the block; \<open>value_offset\<close> is \<open>None\<close> when the
  value is the default-constructed \<^verbatim>\<open>StaticString()\<close>, which points to a static empty
  string and not into the block.
\<close>

record Header =
  header_key :: string
  header_value :: string
  key_offset :: nat
  value_offset :: "nat option"

definition empty_Header :: Header where
  "empty_Header = \<lparr>header_key = [], header_value = [], key_offset = 0, value_offset = None\<rparr>"

definition header_empty :: "Header \<Rightarrow> bool" where
  "header_empty h = (header_key h = [])"

text \<open>
  \<^verbatim>\<open>appendData\<close> (lines 579-583) on a buffer of \<open>cap\<close> bytes of which \<open>buf\<close> are written:
  it copies what still fits.
\<close>

definition appendData :: "nat \<Rightarrow> string \<Rightarrow> string \<Rightarrow> string" where
  "appendData cap buf data = buf @ take (min (cap - length buf) (length data)) data"

text \<open>
  \<^verbatim>\<open>extractHeaderValue\<close> (lines 594-609), called on the block from offset \<open>off\<close> to its end:
  the offset of the value and its bytes, or \<open>None\<close> for the \<^verbatim>\<open>StaticString()\<close> it returns
  when \<^verbatim>\<open>memchr\<close> finds no carriage return.
\<close>

definition extractHeaderValue :: "string \<Rightarrow> nat \<Rightarrow> (nat \<times> string) option" where
  "extractHeaderValue headerData off =
     (let spaces = length (takeWhile (\<lambda>ch. ch = SP) (drop off headerData));
          start = off + spaces;
          remaining = drop start headerData
      in if CR \<in> set remaining then Some (start, takeWhile (\<lambda>ch. ch \<noteq> CR) remaining) else None)"

text \<open>\<^verbatim>\<open>find(name, pos)\<close> of a string: the first position from \<open>pos\<close> on where \<open>name\<close> occurs.\<close>

fun find_in :: "string \<Rightarrow> string \<Rightarrow> nat option" where
  "find_in name [] = (if name = [] then Some 0 else None)"
| "find_in name (ch # s) =
     (if take (length name) (ch # s) = name then Some 0 else map_option Suc (find_in name s))"

definition string_find :: "string \<Rightarrow> string \<Rightarrow> nat \<Rightarrow> nat option" where
  "string_find s name pos =
     (if length s < pos then None else map_option (\<lambda>i. pos + i) (find_in name (drop pos s)))"

lemma string_find_ge: "string_find s name pos = Some q \<Longrightarrow> pos \<le> q"
  by (auto simp: string_find_def split: if_splits)

text \<open>\<^verbatim>\<open>lookupHeader\<close> (lines 611-630); \<open>lookupHeader_from\<close> is its loop, from \<open>searchStart\<close> on.\<close>

function lookupHeader_from :: "string \<Rightarrow> string \<Rightarrow> nat \<Rightarrow> Header" where
  "lookupHeader_from headerData name searchStart =
     (if searchStart < length headerData then
        (case string_find headerData name searchStart of
           None \<Rightarrow> empty_Header
         | Some pos \<Rightarrow>
             if (pos = 0 \<or> headerData ! (pos - 1) = LF)
                \<and> pos + length name < length headerData
                \<and> headerData ! (pos + length name) = CHR '':''
             then
               (case extractHeaderValue headerData (pos + length name + 1) of
                  None \<Rightarrow> \<lparr>header_key = take (length name) (drop pos headerData), header_value = [],
                            key_offset = pos, value_offset = None\<rparr>
                | Some (vo, v) \<Rightarrow> \<lparr>header_key = take (length name) (drop pos headerData),
                                   header_value = v, key_offset = pos, value_offset = Some vo\<rparr>)
             else lookupHeader_from headerData name (pos + length name + 1))
      else empty_Header)"
  by pat_completeness auto
termination
  by (relation "measure (\<lambda>(headerData, name, searchStart). length headerData - searchStart)")
     (auto dest: string_find_ge)

declare lookupHeader_from.simps [simp del]

definition lookupHeader :: "string \<Rightarrow> string \<Rightarrow> Header" where
  "lookupHeader headerData name = lookupHeader_from headerData name 0"

text \<open>\<^verbatim>\<open>std::string::replace(pos, len, s)\<close> for \<open>pos\<close> within the string; \<open>len\<close> is cut at the end.\<close>

definition string_replace :: "string \<Rightarrow> nat \<Rightarrow> nat \<Rightarrow> string \<Rightarrow> string" where
  "string_replace s pos len new = take pos s @ new @ drop (pos + len) s"

text \<open>\<^verbatim>\<open>writeToClientOutputPipe\<close> (lines 726-733).\<close>

definition writeToClientOutputPipe :: "Client \<Rightarrow> string \<Rightarrow> Client" where
  "writeToClientOutputPipe client data =
     (let wasCommittingToDisk = committingToDisk (clientOutputPipe client);
          (accepted, pipe) = pipe_write data (clientOutputPipe client);
          nowCommittingToDisk = \<not> accepted;
          client = client\<lparr>clientOutputPipe := pipe\<rparr>
      in if \<not> wasCommittingToDisk \<and> nowCommittingToDisk
         then client\<lparr>backgroundOperations := backgroundOperations client + 1,
                     appInput_started := False\<rparr>
         else client)"

text \<open>
  The new \<^verbatim>\<open>Status\<close> line that lines 659-672 build in the 100 bytes of \<^verbatim>\<open>newStatus\<close>.
\<close>

definition newStatus :: "Externals \<Rightarrow> string \<Rightarrow> string" where
  "newStatus ext status_value =
     (let statusCode = stringToInt ext status_value;
          statusCodeAndReasonPhrase = getStatusCodeAndReasonPhrase ext statusCode;
          buf = appendData 100 [] ''Status: ''
      in case statusCodeAndReasonPhrase of
           None \<Rightarrow>
             appendData 100 (appendData 100 buf (toString ext statusCode))
               ('' Unknown Reason-Phrase'' @ CRLF)
         | Some phrase \<Rightarrow> appendData 100 (appendData 100 buf phrase) CRLF)"


text \<open>
  \<^verbatim>\<open>processResponseHeader\<close> (lines 636-724). \<open>headerIsPacket\<close> is the pointer comparison
  \<^verbatim>\<open>headerData.data() == currentPacket.data()\<close>. \<^verbatim>\<open>Header::size()\<close> subtracts the pointer of
  the key from the pointer of the value; when the value is \<^verbatim>\<open>StaticString()\<close> the two point
  into different objects and the result is \<open>UndefinedBehaviour\<close>.
\<close>

definition processResponseHeader ::
  "Externals \<Rightarrow> Client \<Rightarrow> bool \<Rightarrow> string \<Rightarrow> string \<Rightarrow> string \<Rightarrow> failure + Client" where
  "processResponseHeader ext client headerIsPacket currentPacket headerData rest =
     (let status = lookupHeader headerData ''Status'' in
      if header_empty status then
        disconnectWithError client
          ''application sent malformed response: it didn't send a Status header.''
      else
        and_then
          (if SP \<notin> set (header_value status) then
             (case value_offset status of
                None \<Rightarrow> Inl UndefinedBehaviour
              | Some vo \<Rightarrow>
                  Inr (string_replace headerData (key_offset status)
                         (vo + length (header_value status) + 2 - key_offset status)
                         (newStatus ext (header_value status)),
                       empty_Header))
           else Inr ([], status))
          (\<lambda>(newHeaderData, status).
             and_then
               (if getBoolOption client ''PASSENGER_PRINT_STATUS_LINE'' True then
                  (if header_empty status \<and> newHeaderData = [] then Inl AssertionFailed
                   else
                     (let status = (if header_empty status
                                    then lookupHeader newHeaderData ''Status'' else status)
                      in Inr (''HTTP/1.1 '' @ header_value status @ CRLF)))
                else Inr [])
               (\<lambda>prefix.
                  (let prefix = prefix @ ''X-Powered-By: Phusion Passenger ''
                                  @ PASSENGER_VERSION ext @ CRLF
                   in if prefix = [] \<and> newHeaderData = [] then
                        (if headerIsPacket then Inr (writeToClientOutputPipe client currentPacket)
                         else Inr (writeToClientOutputPipe
                                     (writeToClientOutputPipe client headerData) rest))
                      else
                        Inr (writeToClientOutputPipe client
                               (prefix @ (if newHeaderData = [] then headerData else newHeaderData)
                                  @ rest))))))"

text \<open>\<^verbatim>\<open>onAppInputEof\<close> (lines 770-778).\<close>

definition onAppInputEof :: "Client \<Rightarrow> Client" where
  "onAppInputEof client =
     (if \<not> connected client then client
      else client\<lparr>clientOutputPipe := pipe_end (clientOutputPipe client),
                  appInput_started := False\<rparr>)"

text \<open>
  \<^verbatim>\<open>onAppInputData\<close> (lines 735-768): the response is buffered until the end of its
  header, the header is processed once, and what follows is forwarded as it comes. Empty
  data is the end of the worker's output.
\<close>

definition onAppInputData :: "Externals \<Rightarrow> Client \<Rightarrow> string \<Rightarrow> failure + Client \<times> nat" where
  "onAppInputData ext client data =
     (if \<not> connected client then Inr (client, 0)
      else if data \<noteq> [] then
        and_then
          (if \<not> responseHeaderSeen client then
             (let (bufferer, consumed) = headerBufferer_feed ext (responseHeaderBufferer client) data;
                  client = client\<lparr>responseHeaderBufferer := bufferer\<rparr>
              in if \<not> acceptingInput bufferer then
                   (if hasError bufferer then
                      disconnectWithError client
                        ''application response format error (invalid header)''
                    else
                      processResponseHeader ext (client\<lparr>responseHeaderSeen := True\<rparr>)
                        (data_is_fed bufferer) data (bufferer_data bufferer) (drop consumed data))
                 else Inr client)
           else Inr (writeToClientOutputPipe client data))
          (\<lambda>client. Inr (client, length data))
      else Inr (onAppInputEof client, 0))"

text \<open>
  \<^verbatim>\<open>onClientOutputPipeCommit\<close> (lines 798-805), and the pipe's commit signal, which ends
  the committing of the pipe and then calls it (modelled from the spec, section 4.1).
\<close>

definition onClientOutputPipeCommit :: "Client \<Rightarrow> Client" where
  "onClientOutputPipeCommit client =
     (if \<not> connected client then client
      else client\<lparr>backgroundOperations := backgroundOperations client - 1,
                  appInput_started := True\<rparr>)"

definition pipe_commit :: "FileBackedPipe \<Rightarrow> FileBackedPipe" where
  "pipe_commit p = p\<lparr>committingToDisk := False\<rparr>"

subsection \<open>Sending the header and the body to the worker\<close>

text \<open>\<^verbatim>\<open>sendBodyToApp\<close> (lines 1448-1462).\<close>

definition sendBodyToApp :: "Client \<Rightarrow> failure + Client" where
  "sendBodyToApp client =
     (if appOutputBuffer client \<noteq> [] \<or> pipe_started (clientBodyBuffer client)
         \<or> clientInput_started client \<or> appOutputWatcher_active client
      then Inl AssertionFailed
      else
        (let client = client\<lparr>state := FORWARDING_BODY_TO_APP\<rparr>
         in if requestBodyIsBuffered client
            then Inr (client\<lparr>clientBodyBuffer := pipe_start (clientBodyBuffer client)\<rparr>)
            else Inr (client\<lparr>clientInput_started := True\<rparr>)))"

text \<open>
  Modelled from the spec: \<^verbatim>\<open>Uint32Message::generate\<close> is not in the sources. Section 4.4
  (worker dispatch frame): the length prefix is the 32-bit value in big-endian order.
\<close>

definition Uint32Message_generate :: "nat \<Rightarrow> string" where
  "Uint32Message_generate n =
     [char_of (n div 2 ^ 24), char_of (n div 2 ^ 16), char_of (n div 2 ^ 8), char_of n]"

definition makeStaticStringWithNull :: "string \<Rightarrow> string" where
  "makeStaticStringWithNull s = s @ [NUL]"

text \<open>
  The array \<^verbatim>\<open>data[]\<close> that \<^verbatim>\<open>sendHeaderToApp\<close> (lines 1400-1413) hands to \<^verbatim>\<open>gatheredWrite\<close>.
  \<open>dataSize\<close> is a \<^verbatim>\<open>uint32_t\<close>: every size is cast to 32 bits and the sum wraps around.
\<close>

definition dataSize :: "string list \<Rightarrow> nat" where
  "dataSize parts = fold (\<lambda>s acc. (acc + length s mod 2 ^ 32) mod 2 ^ 32) parts 0"

definition sendHeaderToApp_data :: "Client \<Rightarrow> Session \<Rightarrow> string list" where
  "sendHeaderToApp_data client sess =
     (let payload = [getHeaderData (scgiParser client),
                     makeStaticStringWithNull ''PASSENGER_CONNECT_PASSWORD'',
                     makeStaticStringWithNull (connectPassword sess)]
      in Uint32Message_generate (dataSize payload) # payload)"

text \<open>
  Modelled from the spec: \<^verbatim>\<open>gatheredWrite\<close> is not in the sources. Section 4.4
  (\<^verbatim>\<open>SendHeaderToApp\<close>: flush the header buffer; when empty, proceed): the bytes left over
  from earlier calls and the new ones are written in order, and what the socket does not
  take stays in the buffer. \<open>wr\<close> is what the socket answers.
\<close>

definition gatheredWrite :: "write_result \<Rightarrow> string list \<Rightarrow> Client \<Rightarrow> Client" where
  "gatheredWrite wr parts client =
     (let pending = appOutputBuffer client @ concat parts in
      case wr of
        Wrote n \<Rightarrow> client\<lparr>worker_received := worker_received client @ take n pending,
                           appOutputBuffer := drop n pending\<rparr>
      | Failed EAGAIN \<Rightarrow> client\<lparr>appOutputBuffer := pending\<rparr>
      | Failed e \<Rightarrow> client)"

text \<open>The test \<^verbatim>\<open>ret == -1 && errno != EAGAIN\<close>: the error number when it holds.\<close>

fun failed_not_EAGAIN :: "write_result \<Rightarrow> errno option" where
  "failed_not_EAGAIN (Wrote n) = None"
| "failed_not_EAGAIN (Failed e) = (if e \<noteq> EAGAIN then Some e else None)"

text \<open>The number of bytes a socket that answers \<open>wr\<close> is ready to take.\<close>

fun bytes_taken :: "write_result \<Rightarrow> nat" where
  "bytes_taken (Wrote n) = n"
| "bytes_taken (Failed e) = 0"

text \<open>\<^verbatim>\<open>sendHeaderToApp\<close> (lines 1394-1425).\<close>

definition sendHeaderToApp :: "Client \<Rightarrow> failure + Client" where
  "sendHeaderToApp client =
     (if clientInput_started client \<or> pipe_started (clientBodyBuffer client)
      then Inl AssertionFailed
      else
        (case session client of
           None \<Rightarrow> Inl NullPointerDereference
         | Some sess \<Rightarrow>
             (let wr = header_write_result sess;
                  client = gatheredWrite wr (sendHeaderToApp_data client sess) client
              in case failed_not_EAGAIN wr of
                   Some e \<Rightarrow> disconnectWithAppSocketWriteError client e
                 | None \<Rightarrow>
                     if appOutputBuffer client \<noteq> [] then
                       Inr (client\<lparr>state := SENDING_HEADER_TO_APP, appOutputWatcher_active := True\<rparr>)
                     else sendBodyToApp client)))"

text \<open>\<^verbatim>\<open>state_sendingHeaderToApp_onAppOutputWritable\<close> (lines 1427-1439).\<close>

definition state_sendingHeaderToApp_onAppOutputWritable :: "Client \<Rightarrow> write_result \<Rightarrow> failure + Client" where
  "state_sendingHeaderToApp_onAppOutputWritable client wr =
     (if clientInput_started client \<or> pipe_started (clientBodyBuffer client)
      then Inl AssertionFailed
      else
        (let client = gatheredWrite wr [] client in
         case wr of
           Failed e \<Rightarrow>
             if e \<noteq> EAGAIN \<and> e \<noteq> EPIPE then disconnectWithAppSocketWriteError client e
             else Inr client
         | Wrote n \<Rightarrow>
             if appOutputBuffer client = []
             then sendBodyToApp (client\<lparr>appOutputWatcher_active := False\<rparr>)
             else Inr client))"

subsection \<open>Forwarding the body\<close>

text \<open>
  \<^verbatim>\<open>syscalls::write\<close> on the worker's socket with the answer \<open>wr\<close>: the bytes the socket
  took are appended to what the worker received.
\<close>

definition worker_takes :: "Client \<Rightarrow> string \<Rightarrow> nat \<Rightarrow> Client" where
  "worker_takes client data n = client\<lparr>worker_received := worker_received client @ take n data\<rparr>"

text \<open>\<^verbatim>\<open>state_forwardingBodyToApp_onClientData\<close> (lines 1465-1489).\<close>

definition state_forwardingBodyToApp_onClientData ::
  "Client \<Rightarrow> string \<Rightarrow> write_result \<Rightarrow> failure + Client \<times> nat" where
  "state_forwardingBodyToApp_onClientData client data wr =
     (if state client \<noteq> FORWARDING_BODY_TO_APP \<or> requestBodyIsBuffered client
      then Inl AssertionFailed
      else if session client = None then Inl NullPointerDereference
      else
        (case wr of
           Failed EAGAIN \<Rightarrow>
             Inr (client\<lparr>clientInput_started := False, appOutputWatcher_active := True\<rparr>, 0)
         | Failed EPIPE \<Rightarrow>
             Inr (client\<lparr>clientInput_started := False, client_read_closed := True\<rparr>, 0)
         | Failed e \<Rightarrow>
             and_then (disconnectWithAppSocketWriteError client e) (\<lambda>client. Inr (client, 0))
         | Wrote n \<Rightarrow> Inr (worker_takes client data n, min n (length data))))"

text \<open>\<^verbatim>\<open>state_forwardingBodyToApp_onClientEof\<close> (lines 1491-1498).\<close>

definition state_forwardingBodyToApp_onClientEof :: "Client \<Rightarrow> failure + Client" where
  "state_forwardingBodyToApp_onClientEof client =
     (if state client \<noteq> FORWARDING_BODY_TO_APP \<or> requestBodyIsBuffered client
      then Inl AssertionFailed
      else if session client = None then Inl NullPointerDereference
      else Inr (client\<lparr>clientInput_started := False, worker_write_closed := True\<rparr>))"

text \<open>\<^verbatim>\<open>state_forwardingBodyToApp_onAppOutputWritable\<close> (lines 1500-1506).\<close>

definition state_forwardingBodyToApp_onAppOutputWritable :: "Client \<Rightarrow> failure + Client" where
  "state_forwardingBodyToApp_onAppOutputWritable client =
     (if state client \<noteq> FORWARDING_BODY_TO_APP \<or> requestBodyIsBuffered client
      then Inl AssertionFailed
      else Inr (client\<lparr>clientInput_started := True, clientOutputWatcher_active := False\<rparr>))"

text \<open>
  \<^verbatim>\<open>state_forwardingBodyToApp_onClientBodyBufferData\<close> (lines 1509-1532). The second
  component is the acknowledgement \<^verbatim>\<open>consumed(bytes, done)\<close> given to the pipe.
\<close>

definition state_forwardingBodyToApp_onClientBodyBufferData ::
  "Client \<Rightarrow> string \<Rightarrow> write_result \<Rightarrow> failure + Client \<times> (nat \<times> bool)" where
  "state_forwardingBodyToApp_onClientBodyBufferData client data wr =
     (if state client \<noteq> FORWARDING_BODY_TO_APP \<or> \<not> requestBodyIsBuffered client
      then Inl AssertionFailed
      else if session client = None then Inl NullPointerDereference
      else
        (case wr of
           Failed EAGAIN \<Rightarrow>
             Inr (client\<lparr>clientBodyBuffer := pipe_stop (clientBodyBuffer client),
                         appOutputWatcher_active := True\<rparr>, (0, True))
         | Failed EPIPE \<Rightarrow> Inr (client\<lparr>client_read_closed := True\<rparr>, (0, True))
         | Failed e \<Rightarrow>
             and_then (disconnectWithAppSocketWriteError client e) (\<lambda>client. Inr (client, (0, True)))
         | Wrote n \<Rightarrow> Inr (worker_takes client data n, (min n (length data), False))))"

text \<open>\<^verbatim>\<open>state_forwardingBodyToApp_onClientBodyBufferEnd\<close> (lines 1534-1540).\<close>

definition state_forwardingBodyToApp_onClientBodyBufferEnd :: "Client \<Rightarrow> failure + Client" where
  "state_forwardingBodyToApp_onClientBodyBufferEnd client =
     (if state client \<noteq> FORWARDING_BODY_TO_APP \<or> \<not> requestBodyIsBuffered client
      then Inl AssertionFailed
      else if session client = None then Inl NullPointerDereference
      else Inr (client\<lparr>worker_write_closed := True\<rparr>))"

text \<open>\<^verbatim>\<open>onAppOutputWritable\<close> (lines 1071-1086), the handler of the watcher of the worker's socket.\<close>

definition onAppOutputWritable :: "Client \<Rightarrow> write_result \<Rightarrow> failure + Client" where
  "onAppOutputWritable client wr =
     (if \<not> connected client then Inr client
      else case state client of
             SENDING_HEADER_TO_APP \<Rightarrow> state_sendingHeaderToApp_onAppOutputWritable client wr
           | FORWARDING_BODY_TO_APP \<Rightarrow> state_forwardingBodyToApp_onAppOutputWritable client
           | _ \<Rightarrow> Inl Aborted)"

text \<open>
  \<^verbatim>\<open>onClientBodyBufferData\<close> and \<^verbatim>\<open>onClientBodyBufferEnd\<close> (lines 1017-1055). A client that
  is no longer connected gives the pipe no acknowledgement.
\<close>

definition onClientBodyBufferData ::
  "Client \<Rightarrow> string \<Rightarrow> write_result \<Rightarrow> failure + Client \<times> (nat \<times> bool) option" where
  "onClientBodyBufferData client data wr =
     (if \<not> connected client then Inr (client, None)
      else case state client of
             FORWARDING_BODY_TO_APP \<Rightarrow>
               and_then (state_forwardingBodyToApp_onClientBodyBufferData client data wr)
                 (\<lambda>(client, ack). Inr (client, Some ack))
           | _ \<Rightarrow> Inl Aborted)"

definition onClientBodyBufferEnd :: "Client \<Rightarrow> failure + Client" where
  "onClientBodyBufferEnd client =
     (if \<not> connected client then Inr client
      else case state client of
             FORWARDING_BODY_TO_APP \<Rightarrow> state_forwardingBodyToApp_onClientBodyBufferEnd client
           | _ \<Rightarrow> Inl Aborted)"

text \<open>
  Modelled from the spec: the delivery of a \<^verbatim>\<open>FileBackedPipe\<close> is not in the sources.
  Section 4.1: a started pipe that holds data hands it to \<^verbatim>\<open>onData\<close>; the consumer
  acknowledges with (consumed bytes, stop now); the unconsumed tail stays buffered, and
  after "stop now" nothing is delivered until the consumer starts the pipe again. When
  the pipe is started, empty and ended, \<^verbatim>\<open>onEnd\<close> fires once.
\<close>

definition clientBodyBuffer_deliver :: "Client \<Rightarrow> write_result \<Rightarrow> failure + Client" where
  "clientBodyBuffer_deliver client wr =
     (let pipe = clientBodyBuffer client in
      if \<not> pipe_started pipe then Inr client
      else if buffered pipe \<noteq> [] then
        and_then (onClientBodyBufferData client (buffered pipe) wr)
          (\<lambda>(client, ack).
             case ack of
               None \<Rightarrow> Inr client
             | Some (n, done) \<Rightarrow>
                 (let pipe = clientBodyBuffer client;
                      pipe = pipe\<lparr>buffered := drop n (buffered pipe)\<rparr>;
                      pipe = (if done then pipe_stop pipe else pipe)
                  in Inr (client\<lparr>clientBodyBuffer := pipe\<rparr>)))
      else if pipe_ended pipe then
        and_then (onClientBodyBufferEnd client)
          (\<lambda>client. Inr (client\<lparr>clientBodyBuffer := pipe_stop (clientBodyBuffer client)\<rparr>))
      else Inr client)"

text \<open>The number that a sequence of bytes denotes in big-endian order.\<close>

definition big_endian_value :: "string \<Rightarrow> nat" where
  "big_endian_value bytes = foldl (\<lambda>acc ch. acc * 256 + of_char ch) 0 bytes"

subsection \<open>Checking out a session\<close>

text \<open>
  \<^verbatim>\<open>sessionCheckedOut_real\<close> (lines 1317-1347) and \<^verbatim>\<open>initiateSession\<close> (lines 1349-1376).
  \<open>pool\<close> lists what the pool does with the calls of \<^verbatim>\<open>asyncGet\<close> still to come, in order;
  when it is empty the pool calls back later. A callback that comes before \<^verbatim>\<open>asyncGet\<close>
  returns runs \<^verbatim>\<open>sessionCheckedOut\<close> and so \<^verbatim>\<open>sessionCheckedOut_real\<close> inside the call, on
  the thread of the event loop. \<^verbatim>\<open>e2->getErrorPage()\<close> dereferences the result of the
  dynamic cast.
\<close>

fun sessionCheckedOut_real ::
    "Externals \<Rightarrow> pool_reply list \<Rightarrow> Client \<Rightarrow> Session option \<Rightarrow> pool_exception option \<Rightarrow> failure + Client"
  and initiateSession :: "Externals \<Rightarrow> pool_reply list \<Rightarrow> Client \<Rightarrow> failure + Client"
where
  "sessionCheckedOut_real ext pool client sess e =
     (if \<not> connected client then Inr client
      else if clientInput_started client \<or> pipe_started (clientBodyBuffer client)
      then Inl AssertionFailed
      else
        (let client = client\<lparr>backgroundOperations := backgroundOperations client - 1,
                             sessionCheckedOut := True\<rparr>
         in case e of
              Some ex \<Rightarrow>
                (case dynamic_pointer_cast_SpawnException ex of
                   None \<Rightarrow> Inl NullPointerDereference
                 | Some e2 \<Rightarrow>
                     if errorPage e2 = [] then
                       writeErrorResponse ext
                         (client\<lparr>logged := logged client
                                    @ [WARN (''Cannot checkout session. '' @ spawn_what e2)]\<rparr>)
                         (spawn_what e2) None
                     else
                       writeErrorResponse ext
                         (client\<lparr>logged := logged client
                                    @ [WARN (''Cannot checkout session. '' @ spawn_what e2
                                             @ [LF] @ ''Error page:'' @ [LF] @ errorPage e2)]\<rparr>)
                         (errorPage e2) (Some e2))
            | None \<Rightarrow> initiateSession ext pool (client\<lparr>session := sess\<rparr>)))"
| "initiateSession ext pool client =
     (if state client \<noteq> CHECKING_OUT_SESSION then Inl AssertionFailed
      else
        (let client = client\<lparr>sessionCheckoutTry := sessionCheckoutTry client + 1\<rparr> in
         case session client of
           None \<Rightarrow> Inl NullPointerDereference
         | Some s \<Rightarrow>
             (case initiate_result s of
                ThrowsSystemException msg \<Rightarrow>
                  if sessionCheckoutTry client < 10 then
                    (let client = client\<lparr>sessionCheckedOut := False,
                                         asyncGet_calls := asyncGet_calls client @ [options client]\<rparr>
                     in case pool of
                          CallbackNow sess' e' # pool' \<Rightarrow>
                            and_then (sessionCheckedOut_real ext pool' client sess' e')
                              (\<lambda>client.
                                 if \<not> sessionCheckedOut client
                                 then Inr (client\<lparr>backgroundOperations := backgroundOperations client + 1\<rparr>)
                                 else Inr client)
                        | _ \<Rightarrow>
                            if \<not> sessionCheckedOut client
                            then Inr (client\<lparr>backgroundOperations := backgroundOperations client + 1\<rparr>)
                            else Inr client)
                  else disconnectWithError client ''could not initiate a session''
              | ThrowsOtherException msg \<Rightarrow> Inl (UncaughtException msg)
              | Initiated \<Rightarrow> sendHeaderToApp (client\<lparr>appInput_started := True\<rparr>))))"

declare sessionCheckedOut_real.simps [simp del] initiateSession.simps [simp del]

text \<open>\<^verbatim>\<open>checkoutSession\<close> (lines 1289-1306).\<close>

definition checkoutSession :: "Externals \<Rightarrow> pool_reply list \<Rightarrow> Client \<Rightarrow> failure + Client" where
  "checkoutSession ext pool client =
     (let opts = options client;
          opts = opts\<lparr>appRoot := fillPoolOption_string client (appRoot opts) ''PASSENGER_APP_ROOT''\<rparr>;
          opts = opts\<lparr>appType := fillPoolOption_string client (appType opts) ''PASSENGER_APP_TYPE''\<rparr>;
          opts = opts\<lparr>spawnMethod := fillPoolOption_string client (spawnMethod opts) ''PASSENGER_SPAWN_METHOD''\<rparr>;
          opts = opts\<lparr>startCommand := fillPoolOption_string client (startCommand opts) ''PASSENGER_START_COMMAND''\<rparr>;
          opts = opts\<lparr>loadShellEnvvars := fillPoolOption_bool client (loadShellEnvvars opts) ''PASSENGER_LOAD_SHELL_ENVVARS''\<rparr>;
          client = client\<lparr>options := opts, state := CHECKING_OUT_SESSION\<rparr>;
          client = client\<lparr>asyncGet_calls := asyncGet_calls client @ [options client]\<rparr>
      in case pool of
           CallbackNow sess' e' # pool' \<Rightarrow>
             and_then (sessionCheckedOut_real ext pool' client sess' e')
               (\<lambda>client.
                  if \<not> sessionCheckedOut client
                  then Inr (client\<lparr>backgroundOperations := backgroundOperations client + 1\<rparr>)
                  else Inr client)
         | _ \<Rightarrow>
             if \<not> sessionCheckedOut client
             then Inr (client\<lparr>backgroundOperations := backgroundOperations client + 1\<rparr>)
             else Inr client)"

subsection \<open>The connect password\<close>

text \<open>\<^verbatim>\<open>checkConnectPassword\<close> (lines 1117-1127) on the first \<open>len\<close> bytes of \<open>data\<close>.\<close>

definition checkConnectPassword :: "Externals \<Rightarrow> Client \<Rightarrow> string \<Rightarrow> nat \<Rightarrow> failure + Client" where
  "checkConnectPassword ext client data len =
     (let client = client\<lparr>logged := logged client
                             @ [TRACE 2 (''Given connect password: '' @ take len data)]\<rparr>
      in if take len data = requestSocketPassword ext then
           Inr ((freeBufferedConnectPassword (client\<lparr>state := READING_HEADER\<rparr>))
                  \<lparr>timeoutTimer_active := False\<rparr>)
         else disconnectWithError client ''wrong connect password'')"

text \<open>\<^verbatim>\<open>state_beginReadingConnectPassword_onClientData\<close> (lines 1129-1140).\<close>

definition state_beginReadingConnectPassword_onClientData ::
  "Externals \<Rightarrow> Client \<Rightarrow> string \<Rightarrow> failure + Client \<times> nat" where
  "state_beginReadingConnectPassword_onClientData ext client data =
     (if length (requestSocketPassword ext) \<le> length data then
        and_then (checkConnectPassword ext client data (length (requestSocketPassword ext)))
          (\<lambda>client. Inr (client, length (requestSocketPassword ext)))
      else
        Inr (client\<lparr>bufferedConnectPassword_data := Some data,
                    bufferedConnectPassword_alreadyRead := length data,
                    state := STILL_READING_CONNECT_PASSWORD\<rparr>, length data))"

text \<open>
  \<^verbatim>\<open>state_stillReadingConnectPassword_onClientData\<close> (lines 1145-1157). The \<^verbatim>\<open>memcpy\<close>
  writes \<open>consumed\<close> bytes at offset \<open>alreadyRead\<close> of the buffer.
\<close>

definition state_stillReadingConnectPassword_onClientData ::
  "Externals \<Rightarrow> Client \<Rightarrow> string \<Rightarrow> failure + Client \<times> nat" where
  "state_stillReadingConnectPassword_onClientData ext client data =
     (let consumed = min (length data)
                       (length (requestSocketPassword ext) - bufferedConnectPassword_alreadyRead client)
      in case bufferedConnectPassword_data client of
           None \<Rightarrow> Inl NullPointerDereference
         | Some buf \<Rightarrow>
             (let buf = take (bufferedConnectPassword_alreadyRead client) buf @ take consumed data;
                  client = client\<lparr>bufferedConnectPassword_data := Some buf,
                                   bufferedConnectPassword_alreadyRead :=
                                     bufferedConnectPassword_alreadyRead client + consumed\<rparr>
              in if bufferedConnectPassword_alreadyRead client = length (requestSocketPassword ext)
                 then and_then
                        (checkConnectPassword ext client buf (length (requestSocketPassword ext)))
                        (\<lambda>client. Inr (client, consumed))
                 else Inr (client, consumed)))"

subsection \<open>Reading the header\<close>

text \<open>\<^verbatim>\<open>modifyClientHeaders\<close> (lines 1162-1193) on the map of the parser.\<close>

definition move_or_drop :: "string \<Rightarrow> string \<Rightarrow> HeaderMap \<times> bool \<Rightarrow> HeaderMap \<times> bool" where
  "move_or_drop http_name name mm =
     (let (m, modified) = mm in
      case m http_name of
        Some v \<Rightarrow>
          (if m name = None then ((m(name \<mapsto> v))(http_name := None), True)
           else (m(http_name := None), True))
      | None \<Rightarrow> (m, modified))"

definition modifyClientHeaders :: "Client \<Rightarrow> Client \<times> bool" where
  "modifyClientHeaders client =
     (let mm = (scgi_headers (scgiParser client), False);
          mm = move_or_drop ''HTTP_CONTENT_LENGTH'' ''CONTENT_LENGTH'' mm;
          mm = move_or_drop ''HTTP_CONTENT_TYPE'' ''CONTENT_TYPE'' mm
      in (client\<lparr>scgiParser := (scgiParser client)\<lparr>scgi_headers := fst mm\<rparr>\<rparr>, snd mm))"

text \<open>\<^verbatim>\<open>state_readingHeader_onClientData\<close> (lines 1195-1227).\<close>

definition state_readingHeader_onClientData ::
  "Externals \<Rightarrow> pool_reply list \<Rightarrow> Client \<Rightarrow> string \<Rightarrow> failure + Client \<times> nat" where
  "state_readingHeader_onClientData ext pool client data =
     (let (consumed, parser) = scgi_feed ext (scgiParser client) data;
          client = client\<lparr>scgiParser := parser\<rparr>
      in case scgi_status parser of
           SCGI_READING \<Rightarrow> Inr (client, consumed)
         | SCGI_ERROR reason \<Rightarrow>
             and_then
               (disconnectWithError client
                  (if reason = LIMIT_REACHED then ''SCGI header too large'' else ''invalid SCGI header''))
               (\<lambda>client. Inr (client, consumed))
         | SCGI_DONE \<Rightarrow>
             (let (client, modified) = modifyClientHeaders client;
                  client = client\<lparr>scgiParser := scgi_rebuildData ext modified (scgiParser client)\<rparr>
              in if getBoolOption client ''PASSENGER_BUFFERING'' False then
                   Inr (client\<lparr>state := BUFFERING_REQUEST_BODY, requestBodyIsBuffered := True\<rparr>,
                        consumed)
                 else
                   and_then (checkoutSession ext pool (client\<lparr>clientInput_started := False\<rparr>))
                     (\<lambda>client. Inr (client, consumed))))"

subsection \<open>Buffering the request body\<close>

definition state_bufferingRequestBody_verifyInvariants :: "Client \<Rightarrow> bool" where
  "state_bufferingRequestBody_verifyInvariants client =
     (requestBodyIsBuffered client \<and> \<not> pipe_started (clientBodyBuffer client))"

text \<open>\<^verbatim>\<open>state_bufferingRequestBody_onClientData\<close> (lines 1237-1248).\<close>

definition state_bufferingRequestBody_onClientData :: "Client \<Rightarrow> string \<Rightarrow> failure + Client \<times> nat" where
  "state_bufferingRequestBody_onClientData client data =
     (if \<not> state_bufferingRequestBody_verifyInvariants client
         \<or> committingToDisk (clientBodyBuffer client)
      then Inl AssertionFailed
      else
        (let (accepted, pipe) = pipe_write data (clientBodyBuffer client);
             client = client\<lparr>clientBodyBuffer := pipe\<rparr>
         in if \<not> accepted
            then Inr (client\<lparr>backgroundOperations := backgroundOperations client + 1,
                             clientInput_started := False\<rparr>, length data)
            else Inr (client, length data)))"

text \<open>\<^verbatim>\<open>state_bufferingRequestBody_onClientEof\<close> (lines 1250-1256).\<close>

definition state_bufferingRequestBody_onClientEof ::
  "Externals \<Rightarrow> pool_reply list \<Rightarrow> Client \<Rightarrow> failure + Client" where
  "state_bufferingRequestBody_onClientEof ext pool client =
     (if \<not> state_bufferingRequestBody_verifyInvariants client then Inl AssertionFailed
      else checkoutSession ext pool
             (client\<lparr>clientBodyBuffer := pipe_end (clientBodyBuffer client)\<rparr>))"

text \<open>\<^verbatim>\<open>state_bufferingRequestBody_onClientBodyBufferCommit\<close> (lines 1258-1265).\<close>

definition state_bufferingRequestBody_onClientBodyBufferCommit :: "Client \<Rightarrow> failure + Client" where
  "state_bufferingRequestBody_onClientBodyBufferCommit client =
     (if \<not> state_bufferingRequestBody_verifyInvariants client \<or> clientInput_started client
      then Inl AssertionFailed
      else Inr (client\<lparr>backgroundOperations := backgroundOperations client - 1,
                       clientInput_started := True\<rparr>))"

text \<open>\<^verbatim>\<open>onClientBodyBufferCommit\<close> (lines 1057-1069).\<close>

definition onClientBodyBufferCommit :: "Client \<Rightarrow> failure + Client" where
  "onClientBodyBufferCommit client =
     (if \<not> connected client then Inr client
      else case state client of
             BUFFERING_REQUEST_BODY \<Rightarrow> state_bufferingRequestBody_onClientBodyBufferCommit client
           | _ \<Rightarrow> Inl Aborted)"

text \<open>The pool does not call back before the next \<^verbatim>\<open>asyncGet\<close> returns.\<close>

fun calls_back_later :: "pool_reply list \<Rightarrow> bool" where
  "calls_back_later (CallbackNow sess e # pool) = False"
| "calls_back_later pool = True"

text \<open>
  The client while it waits for the rest of the connect password, after the bytes
  \<open>bytes\<close> (fewer than the password has) have arrived, and the client after the password
  was compared and found correct.
\<close>

definition password_buffered :: "Client \<Rightarrow> string \<Rightarrow> Client" where
  "password_buffered client bytes =
     (if bytes = [] then client
      else client\<lparr>bufferedConnectPassword_data := Some bytes,
                  bufferedConnectPassword_alreadyRead := length bytes,
                  state := STILL_READING_CONNECT_PASSWORD\<rparr>)"

definition password_accepted :: "Externals \<Rightarrow> Client \<Rightarrow> Client" where
  "password_accepted ext client =
     client\<lparr>state := READING_HEADER, timeoutTimer_active := False,
            bufferedConnectPassword_data := None, bufferedConnectPassword_alreadyRead := 0,
            logged := logged client
              @ [TRACE 2 (''Given connect password: '' @ requestSocketPassword ext)]\<rparr>"

subsection \<open>Data and end of file from the client\<close>

text \<open>
  The \<^verbatim>\<open>switch\<close> in the loop of \<^verbatim>\<open>onClientRealData\<close> (lines 955-973). \<open>wr\<close> is what the worker's
  socket answers if the handler writes to it.
\<close>

definition onClientRealData_switch ::
  "Externals \<Rightarrow> pool_reply list \<Rightarrow> write_result \<Rightarrow> Client \<Rightarrow> string \<Rightarrow> failure + Client \<times> nat" where
  "onClientRealData_switch ext pool wr client data =
     (case state client of
        BEGIN_READING_CONNECT_PASSWORD \<Rightarrow> state_beginReadingConnectPassword_onClientData ext client data
      | STILL_READING_CONNECT_PASSWORD \<Rightarrow> state_stillReadingConnectPassword_onClientData ext client data
      | READING_HEADER \<Rightarrow> state_readingHeader_onClientData ext pool client data
      | BUFFERING_REQUEST_BODY \<Rightarrow> state_bufferingRequestBody_onClientData client data
      | FORWARDING_BODY_TO_APP \<Rightarrow> state_forwardingBodyToApp_onClientData client data wr
      | _ \<Rightarrow> Inl Aborted)"

text \<open>
  \<^verbatim>\<open>onClientRealData\<close> (lines 946-981). The loop runs as long as a handler leaves bytes,
  the client connected and its input started; nothing in the function bounds the number
  of rounds, so the result is an \<open>option\<close> and \<open>None\<close> stands for a loop that never ends.
  \<open>wrs\<close> lists the answers of the worker's socket to the writes of this call, in order
  (a socket that is asked more often takes everything).
\<close>

partial_function (option) onClientRealData_loop ::
  "Externals \<Rightarrow> pool_reply list \<Rightarrow> write_result list \<Rightarrow> Client \<Rightarrow> string \<Rightarrow> nat
     \<Rightarrow> (failure + Client \<times> nat) option" where
  "onClientRealData_loop ext pool wrs client buf consumed =
     (if consumed < length buf \<and> connected client \<and> clientInput_started client then
        (let data = drop consumed buf;
             wr = (case wrs of [] \<Rightarrow> Wrote (length data) | w # ws \<Rightarrow> w);
             wrs' = (if state client = FORWARDING_BODY_TO_APP then tl wrs else wrs)
         in case onClientRealData_switch ext pool wr client data of
              Inl f \<Rightarrow> Some (Inl f)
            | Inr (client', locallyConsumed) \<Rightarrow>
                if length buf < consumed + locallyConsumed then Some (Inl AssertionFailed)
                else onClientRealData_loop ext pool wrs' client' buf (consumed + locallyConsumed))
      else Some (Inr (client, consumed)))"

declare onClientRealData_loop.simps [code]

definition onClientRealData ::
  "Externals \<Rightarrow> pool_reply list \<Rightarrow> write_result list \<Rightarrow> Client \<Rightarrow> string
     \<Rightarrow> (failure + Client \<times> nat) option" where
  "onClientRealData ext pool wrs client buf = onClientRealData_loop ext pool wrs client buf 0"

text \<open>\<^verbatim>\<open>onClientEof\<close> (lines 983-996).\<close>

definition onClientEof :: "Externals \<Rightarrow> pool_reply list \<Rightarrow> Client \<Rightarrow> failure + Client" where
  "onClientEof ext pool client =
     (case state client of
        BUFFERING_REQUEST_BODY \<Rightarrow> state_bufferingRequestBody_onClientEof ext pool client
      | FORWARDING_BODY_TO_APP \<Rightarrow> state_forwardingBodyToApp_onClientEof client
      | _ \<Rightarrow> disconnect client)"

text \<open>\<^verbatim>\<open>onClientInputData\<close> (lines 933-944): empty data is the end of the input.\<close>

definition onClientInputData ::
  "Externals \<Rightarrow> pool_reply list \<Rightarrow> write_result list \<Rightarrow> Client \<Rightarrow> string
     \<Rightarrow> (failure + Client \<times> nat) option" where
  "onClientInputData ext pool wrs client data =
     (if \<not> connected client then Some (Inr (client, 0))
      else if data = [] then
        Some (and_then (onClientEof ext pool client) (\<lambda>client. Inr (client, 0)))
      else onClientRealData ext pool wrs client data)"

text \<open>
  Modelled from the spec: \<^verbatim>\<open>EventedBufferedInput\<close> is not in the sources. Section 4.2: a
  started reader hands the bytes it has read to \<^verbatim>\<open>onData\<close>, and what \<^verbatim>\<open>onData\<close> does not
  consume is delivered again. \<open>pending\<close> are the bytes read from the client's socket and
  not yet consumed; the result holds the bytes that remain.
\<close>

definition clientInput_deliver ::
  "Externals \<Rightarrow> pool_reply list \<Rightarrow> write_result list \<Rightarrow> Client \<Rightarrow> string
     \<Rightarrow> (failure + Client \<times> string) option" where
  "clientInput_deliver ext pool wrs client pending =
     (if \<not> clientInput_started client \<or> pending = [] then Some (Inr (client, pending))
      else map_option (\<lambda>r. and_then r (\<lambda>(client, n). Inr (client, drop n pending)))
             (onClientInputData ext pool wrs client pending))"

subsection \<open>The events of one client\<close>

text \<open>
  Modelled from the spec: the event loop and the readers are not in the sources.
  Section 5: a single-threaded loop dispatches one readiness event at a time to the
  handlers above. The events of a client are: bytes arrive on its socket (they join the
  bytes the reader has not yet delivered, and a started reader delivers them); the
  client's side of the socket reaches the end of the input (the reader is then no longer
  started, as the assertions of line 1271 require on this path, and \<^verbatim>\<open>onData\<close> gets
  empty data); the worker's socket becomes writable while its watcher is active; the
  body pipe delivers; a pipe signals its commit; bytes arrive from the worker, or its
  output ends (empty bytes), and the started reader of the worker hands them to
  \<^verbatim>\<open>onAppInputData\<close>, which consumes all it is given. The state of the world is the client
  and the bytes its reader has read and not yet delivered.
\<close>

datatype event =
    ClientSends string "write_result list"
  | ClientInputResumes "write_result list"
  | ClientEof
  | WorkerWritable write_result
  | BodyBufferDelivers write_result
  | BodyBufferCommits
  | OutputPipeCommits
  | WorkerResponds string

definition lift_client :: "string \<Rightarrow> failure + Client \<Rightarrow> (failure + Client \<times> string) option" where
  "lift_client pending r = Some (and_then r (\<lambda>client. Inr (client, pending)))"

fun client_event ::
  "Externals \<Rightarrow> pool_reply list \<Rightarrow> event \<Rightarrow> Client \<times> string \<Rightarrow> (failure + Client \<times> string) option" where
  "client_event ext pool (ClientSends bytes wrs) (client, pending) =
     clientInput_deliver ext pool wrs client (pending @ bytes)"
| "client_event ext pool (ClientInputResumes wrs) (client, pending) =
     clientInput_deliver ext pool wrs client pending"
| "client_event ext pool ClientEof (client, pending) =
     (if \<not> clientInput_started client \<or> pending \<noteq> [] then Some (Inr (client, pending))
      else map_option (\<lambda>r. and_then r (\<lambda>(client, n). Inr (client, pending)))
             (onClientInputData ext pool [] (client\<lparr>clientInput_started := False\<rparr>) []))"
| "client_event ext pool (WorkerWritable wr) (client, pending) =
     (if appOutputWatcher_active client then lift_client pending (onAppOutputWritable client wr)
      else Some (Inr (client, pending)))"
| "client_event ext pool (BodyBufferDelivers wr) (client, pending) =
     lift_client pending (clientBodyBuffer_deliver client wr)"
| "client_event ext pool BodyBufferCommits (client, pending) =
     (if committingToDisk (clientBodyBuffer client)
      then lift_client pending
             (onClientBodyBufferCommit
                (client\<lparr>clientBodyBuffer := pipe_commit (clientBodyBuffer client)\<rparr>))
      else Some (Inr (client, pending)))"
| "client_event ext pool OutputPipeCommits (client, pending) =
     (if committingToDisk (clientOutputPipe client)
      then Some (Inr (onClientOutputPipeCommit
                        (client\<lparr>clientOutputPipe := pipe_commit (clientOutputPipe client)\<rparr>),
                      pending))
      else Some (Inr (client, pending)))"
| "client_event ext pool (WorkerResponds bytes) (client, pending) =
     (if \<not> appInput_started client then Some (Inr (client, pending))
      else lift_client pending
             (and_then (onAppInputData ext client bytes) (\<lambda>(client, n). Inr client)))"

fun client_events ::
  "Externals \<Rightarrow> pool_reply list \<Rightarrow> event list \<Rightarrow> Client \<times> string \<Rightarrow> (failure + Client \<times> string) option" where
  "client_events ext pool [] w = Some (Inr w)"
| "client_events ext pool (ev # evs) w =
     (case client_event ext pool ev w of
        None \<Rightarrow> None
      | Some (Inl f) \<Rightarrow> Some (Inl f)
      | Some (Inr w') \<Rightarrow> client_events ext pool evs w')"

subsection \<open>Concrete values\<close>

text \<open>
  A configuration, a session and clients at which the theorems below are evaluated.
  The connect password is \<open>secret\<close>; the status table knows 200 and 404; the two
  conversions are decimal on the numbers that occur; the parser takes the bytes up to
  the first comma as the header block and yields the given headers; rebuilding the header
  data serializes the map again when it was modified; the bufferer of the response
  collects the bytes up to the first empty line.
\<close>

definition example_feed :: "(string \<times> string) list \<Rightarrow> ScgiRequestParser \<Rightarrow> string \<Rightarrow> nat \<times> ScgiRequestParser" where
  "example_feed hs p s =
     (if CHR '','' \<in> set s
      then (length (takeWhile (\<lambda>ch. ch \<noteq> CHR '','') s) + 1,
            p\<lparr>scgi_status := SCGI_DONE, scgi_headers := map_of hs,
              getHeaderData := concat (map (\<lambda>(k, v). k @ [NUL] @ v @ [NUL]) hs)\<rparr>)
      else (length s, p))"

definition example_serialize :: "HeaderMap \<Rightarrow> string" where
  "example_serialize m =
     concat (map (\<lambda>k. case m k of Some v \<Rightarrow> k @ [NUL] @ v @ [NUL] | None \<Rightarrow> [])
               [''CONTENT_LENGTH'', ''CONTENT_TYPE'', ''HTTP_CONTENT_LENGTH'', ''HTTP_CONTENT_TYPE'',
                ''PASSENGER_BUFFERING'', ''REQUEST_METHOD''])"

definition example_rebuildData :: "bool \<Rightarrow> ScgiRequestParser \<Rightarrow> ScgiRequestParser" where
  "example_rebuildData modified p =
     (if modified then p\<lparr>getHeaderData := example_serialize (scgi_headers p)\<rparr> else p)"

definition example_headerBufferer_feed ::
  "HttpHeaderBufferer \<Rightarrow> string \<Rightarrow> HttpHeaderBufferer \<times> nat" where
  "example_headerBufferer_feed b s =
     (if \<not> acceptingInput b then (b, 0)
      else
        (case string_find (bufferer_data b @ s) (CRLF @ CRLF) 0 of
           None \<Rightarrow> (b\<lparr>bufferer_data := bufferer_data b @ s, data_is_fed := False\<rparr>, length s)
         | Some i \<Rightarrow>
             (b\<lparr>acceptingInput := False, bufferer_data := take (i + 4) (bufferer_data b @ s),
                data_is_fed := (bufferer_data b = [])\<rparr>,
              i + 4 - length (bufferer_data b))))"

definition example_ext_with :: "(string \<times> string) list \<Rightarrow> Externals" where
  "example_ext_with hs =
     \<lparr>requestSocketPassword = ''secret'',
      PASSENGER_VERSION = ''3.9.0'',
      getStatusCodeAndReasonPhrase =
        (\<lambda>n. if n = 200 then Some ''200 OK'' else if n = 404 then Some ''404 Not Found'' else None),
      stringToInt = (\<lambda>s. if s = ''200'' then 200 else if s = ''404'' then 404
                          else if s = ''999'' then 999 else 0),
      toString = (\<lambda>n. if n = 999 then ''999'' else if n = 9 then ''9'' else ''0''),
      scgi_feed = example_feed hs,
      scgi_rebuildData = example_rebuildData,
      headerBufferer_feed = example_headerBufferer_feed,
      readAll = (\<lambda>file. ''<html/>''),
      Template_apply = (\<lambda>template params. template),
      resourcesDir = ''/usr/share/passenger''\<rparr>"

definition example_ext :: Externals where
  "example_ext = example_ext_with [(''REQUEST_METHOD'', ''GET'')]"

definition example_options :: Options where
  "example_options =
     \<lparr>appRoot = ''/app'', appType = ''rack'', spawnMethod = ''smart'', startCommand = [],
      loadShellEnvvars = True, environment = ''production''\<rparr>"

definition example_session :: Session where
  "example_session =
     \<lparr>session_fd = 7, connectPassword = ''pw'', initiate_result = Initiated,
      header_write_result = Wrote 1000\<rparr>"

text \<open>A client right after \<^verbatim>\<open>associate\<close>, with pipes that hold 8 bytes in memory.\<close>

definition example_client :: Client where
  "example_client =
     (new_Client example_options 8)
       \<lparr>requestHandler := True, fd := Some 5, state := BEGIN_READING_CONNECT_PASSWORD,
        clientInput_started := True,
        clientOutputPipe := pipe_start (new_pipe 8),
        timeoutTimer_active := True\<rparr>"

text \<open>The same client with a parsed header map.\<close>

definition example_client_with :: "(string \<times> string) list \<Rightarrow> Client" where
  "example_client_with hs =
     example_client\<lparr>scgiParser := (scgiParser example_client)\<lparr>scgi_headers := map_of hs\<rparr>\<rparr>"

text \<open>A client that forwards the body of a request to the worker of \<open>example_session\<close>.\<close>

definition example_forwarding_client :: Client where
  "example_forwarding_client =
     example_client\<lparr>state := FORWARDING_BODY_TO_APP, session := Some example_session,
                    sessionCheckedOut := True, sessionCheckoutTry := 1,
                    timeoutTimer_active := False, appInput_started := True\<rparr>"

definition example_response_without_Status :: string where
  "example_response_without_Status = ''Content-Type: text/html'' @ CRLF @ CRLF"



text \<open>A client whose header was read and whose session was checked out, before the dispatch.\<close>

definition example_dispatch_client :: Client where
  "example_dispatch_client =
     example_client\<lparr>state := CHECKING_OUT_SESSION, session := Some example_session,
                    sessionCheckedOut := True, sessionCheckoutTry := 1,
                    timeoutTimer_active := False, clientInput_started := False,
                    scgiParser := \<lparr>scgi_status = SCGI_DONE,
                                   scgi_headers = [''REQUEST_METHOD'' \<mapsto> ''GET''],
                                   getHeaderData = ''REQUEST_METHOD'' @ [NUL] @ ''GET'' @ [NUL]\<rparr>\<rparr>"

text \<open>The same, with a worker whose socket takes 10 bytes of the header at first.\<close>

definition example_slow_session :: Session where
  "example_slow_session = example_session\<lparr>header_write_result := Wrote 10\<rparr>"

definition example_slow_dispatch_client :: Client where
  "example_slow_dispatch_client = example_dispatch_client\<lparr>session := Some example_slow_session\<rparr>"

text \<open>A request whose header block carries both spellings of the content type.\<close>

definition example_http_headers :: "(string \<times> string) list" where
  "example_http_headers =
     [(''HTTP_CONTENT_LENGTH'', ''5''), (''CONTENT_TYPE'', ''text/plain''),
      (''HTTP_CONTENT_TYPE'', ''text/html'')]"

definition example_parsed :: ScgiRequestParser where
  "example_parsed =
     \<lparr>scgi_status = SCGI_DONE, scgi_headers = map_of example_http_headers,
      getHeaderData = concat (map (\<lambda>(k, v). k @ [NUL] @ v @ [NUL]) example_http_headers)\<rparr>"

text \<open>A session whose \<^verbatim>\<open>initiate\<close> fails with a system exception, and a client holding it.\<close>

definition example_refusing_session :: Session where
  "example_refusing_session =
     example_session\<lparr>initiate_result := ThrowsSystemException ''Cannot connect to the worker''\<rparr>"

definition example_retrying_client :: "32 word \<Rightarrow> Client" where
  "example_retrying_client tries =
     example_dispatch_client\<lparr>session := Some example_refusing_session,
                             sessionCheckoutTry := tries\<rparr>"

section \<open>Properties\<close>

subsection \<open>Boolean request options\<close>

lemma example_client_associate: "associate (new_Client example_options 8) 5 = Inr example_client"
  by (simp add: associate_def example_client_def new_Client_def resetPrimitiveFields_def
      freeBufferedConnectPassword_def pipe_reset_def new_pipe_def pipe_start_def)

text \<open>
  C10. A boolean option read from the request headers is true iff the header is present
  with exactly the bytes \<open>true\<close>; every other present value, such as \<open>1\<close>, \<open>TRUE\<close> or
  \<open>yes\<close>, gives false, whatever the default; and only an absent header gives the default.
  This holds for \<^verbatim>\<open>getBoolOption\<close> (used for \<^verbatim>\<open>PASSENGER_BUFFERING\<close>,
  \<^verbatim>\<open>PASSENGER_FRIENDLY_ERROR_PAGES\<close> and \<^verbatim>\<open>PASSENGER_PRINT_STATUS_LINE\<close>) and for the boolean
  \<^verbatim>\<open>fillPoolOption\<close> (used for \<^verbatim>\<open>PASSENGER_LOAD_SHELL_ENVVARS\<close>), whose default is the value
  the field already has.
\<close>

theorem bool_option_true_iff_exactly_true:
  "(scgi_headers (scgiParser client) name = Some v \<longrightarrow>
      getBoolOption client name defaultValue = (v = ''true'')
      \<and> fillPoolOption_bool client field name = (v = ''true''))
   \<and> (scgi_headers (scgiParser client) name \<in> {Some ''1'', Some ''TRUE'', Some ''yes''} \<longrightarrow>
      \<not> getBoolOption client name defaultValue \<and> \<not> fillPoolOption_bool client field name)
   \<and> (scgi_headers (scgiParser client) name = None \<longrightarrow>
      getBoolOption client name defaultValue = defaultValue
      \<and> fillPoolOption_bool client field name = field)"
  by (auto simp: getBoolOption_def fillPoolOption_bool_def)

theorem bool_option_true_iff_exactly_true_witness:
  "scgi_headers (scgiParser (example_client_with [(''PASSENGER_BUFFERING'', ''TRUE'')]))
       ''PASSENGER_BUFFERING'' = Some ''TRUE''
   \<and> getBoolOption (example_client_with [(''PASSENGER_BUFFERING'', ''TRUE'')])
        ''PASSENGER_BUFFERING'' True = False
   \<and> scgi_headers (scgiParser (example_client_with [(''PASSENGER_BUFFERING'', ''true'')]))
       ''PASSENGER_BUFFERING'' = Some ''true''
   \<and> getBoolOption (example_client_with [(''PASSENGER_BUFFERING'', ''true'')])
        ''PASSENGER_BUFFERING'' False = True
   \<and> scgi_headers (scgiParser (example_client_with [])) ''PASSENGER_PRINT_STATUS_LINE'' = None
   \<and> getBoolOption (example_client_with []) ''PASSENGER_PRINT_STATUS_LINE'' True = True
   \<and> fillPoolOption_bool (example_client_with []) False ''PASSENGER_LOAD_SHELL_ENVVARS'' = False"
  using bool_option_true_iff_exactly_true
          [of "example_client_with [(''PASSENGER_BUFFERING'', ''TRUE'')]"
              "''PASSENGER_BUFFERING''" "''TRUE''" True False]
        bool_option_true_iff_exactly_true
          [of "example_client_with [(''PASSENGER_BUFFERING'', ''true'')]"
              "''PASSENGER_BUFFERING''" "''true''" False False]
        bool_option_true_iff_exactly_true
          [of "example_client_with []" "''PASSENGER_PRINT_STATUS_LINE''" "''x''" True False]
        bool_option_true_iff_exactly_true
          [of "example_client_with []" "''PASSENGER_LOAD_SHELL_ENVVARS''" "''x''" True False]
  by (simp add: example_client_with_def)

subsection \<open>A response without a Status header\<close>

lemma disconnect_connected:
  "requestHandler client \<Longrightarrow>
   disconnect client =
     Inr ((resetPrimitiveFields client)
            \<lparr>fd := None, clientInput_started := False,
             clientBodyBuffer := pipe_stop (clientBodyBuffer client),
             clientOutputPipe := pipe_stop (clientOutputPipe client),
             clientOutputWatcher_active := False, appInput_started := False,
             appOutputWatcher_active := False, timeoutTimer_active := False\<rparr>)"
  by (simp add: disconnect_def discard_def and_then_def verifyInvariants_def
      resetPrimitiveFields_def freeBufferedConnectPassword_def)

lemma disconnectWithError_connected:
  assumes "requestHandler client"
  shows "\<exists>client'. disconnectWithError client message = Inr client'
           \<and> state client' = DISCONNECTED \<and> \<not> requestHandler client' \<and> fd client' = None
           \<and> backgroundOperations client' = 0
           \<and> clientOutputPipe client' = pipe_stop (clientOutputPipe client)
           \<and> clientBodyBuffer client' = pipe_stop (clientBodyBuffer client)
           \<and> asyncGet_calls client' = asyncGet_calls client
           \<and> worker_received client' = worker_received client
           \<and> logged client' = logged client @ [WARN (''Disconnecting with error: '' @ message)]"
  using assms
  by (simp add: disconnectWithError_def disconnect_connected resetPrimitiveFields_def
      freeBufferedConnectPassword_def)

text \<open>
  C1, as the code has it. When the lookup finds no \<^verbatim>\<open>Status\<close> header in the header block
  of the worker's response, a connected client is disconnected with the warning
  "application sent malformed response: it didn't send a Status header."; its state
  becomes \<open>DISCONNECTED\<close>, nothing is written to the client output pipe and the pipe is
  not ended, so no error page is sent.
\<close>

theorem response_without_Status_disconnects:
  assumes "header_empty (lookupHeader headerData ''Status'')"
    and "connected client"
  shows "\<exists>client'.
           processResponseHeader ext client headerIsPacket currentPacket headerData rest = Inr client'
           \<and> state client' = DISCONNECTED \<and> \<not> connected client'
           \<and> buffered (clientOutputPipe client') = buffered (clientOutputPipe client)
           \<and> pipe_ended (clientOutputPipe client') = pipe_ended (clientOutputPipe client)
           \<and> logged client' = logged client
                @ [WARN (''Disconnecting with error: ''
                     @ ''application sent malformed response: it didn't send a Status header.'')]"
proof -
  from assms(2) have "requestHandler client"
    by (simp add: connected_def)
  from disconnectWithError_connected [OF this]
  obtain client' where d:
    "disconnectWithError client
       ''application sent malformed response: it didn't send a Status header.'' = Inr client'"
    "state client' = DISCONNECTED" "\<not> requestHandler client'"
    "clientOutputPipe client' = pipe_stop (clientOutputPipe client)"
    "logged client' = logged client
       @ [WARN (''Disconnecting with error: ''
            @ ''application sent malformed response: it didn't send a Status header.'')]"
    by blast
  have "processResponseHeader ext client headerIsPacket currentPacket headerData rest = Inr client'"
    using assms(1) d(1) by (simp add: processResponseHeader_def)
  with d show ?thesis
    by (simp add: connected_def pipe_stop_def)
qed

lemma lookupHeader_example_without_Status:
  "lookupHeader example_response_without_Status ''Status'' = empty_Header"
  by (simp add: example_response_without_Status_def lookupHeader_def string_find_def
      lookupHeader_from.simps)

lemma connected_example_forwarding_client: "connected example_forwarding_client"
  by (simp add: connected_def example_forwarding_client_def example_client_def)

theorem response_without_Status_disconnects_witness:
  "header_empty (lookupHeader example_response_without_Status ''Status'')
   \<and> connected example_forwarding_client
   \<and> (\<exists>client'.
        processResponseHeader example_ext example_forwarding_client True
          example_response_without_Status example_response_without_Status [] = Inr client'
        \<and> state client' = DISCONNECTED
        \<and> buffered (clientOutputPipe client') = [])"
proof -
  have h: "header_empty (lookupHeader example_response_without_Status ''Status'')"
    by (simp add: lookupHeader_example_without_Status header_empty_def empty_Header_def)
  have b: "buffered (clientOutputPipe example_forwarding_client) = []"
    by (simp add: example_forwarding_client_def example_client_def pipe_start_def new_pipe_def)
  from response_without_Status_disconnects [OF h connected_example_forwarding_client,
      of example_ext True example_response_without_Status "[]"] b
  show ?thesis
    using h connected_example_forwarding_client by auto
qed

text \<open>
  The claim as the specification states it (the client receives a 500 error page) fails:
  for the response \<open>Content-Type: text/html\<close> the client never enters
  \<open>WRITING_SIMPLE_RESPONSE\<close> and its output pipe stays empty.
\<close>

theorem response_without_Status_no_error_page:
  "header_empty (lookupHeader example_response_without_Status ''Status'')
   \<and> map_sum id (\<lambda>client'. (state client', buffered (clientOutputPipe client'),
                              pipe_ended (clientOutputPipe client')))
       (processResponseHeader example_ext example_forwarding_client True
          example_response_without_Status example_response_without_Status [])
     = Inr (DISCONNECTED, [], False)"
  by (simp add: lookupHeader_example_without_Status header_empty_def empty_Header_def
      processResponseHeader_def disconnectWithError_def disconnect_connected
      example_forwarding_client_def example_client_def resetPrimitiveFields_def
      freeBufferedConnectPassword_def pipe_stop_def pipe_start_def new_pipe_def)

subsection \<open>Runs of a client from its first byte\<close>

lemmas run_defs =
  sessionCheckedOut_real.simps initiateSession.simps lookupHeader_from.simps
  clientInput_deliver_def onClientInputData_def onClientRealData_def onClientEof_def
  onClientRealData_switch_def state_beginReadingConnectPassword_onClientData_def
  state_stillReadingConnectPassword_onClientData_def checkConnectPassword_def
  state_readingHeader_onClientData_def modifyClientHeaders_def move_or_drop_def
  state_bufferingRequestBody_onClientData_def state_bufferingRequestBody_onClientEof_def
  state_bufferingRequestBody_verifyInvariants_def
  checkoutSession_def fillPoolOption_string_def fillPoolOption_bool_def getBoolOption_def
  sendHeaderToApp_def sendHeaderToApp_data_def gatheredWrite_def sendBodyToApp_def
  makeStaticStringWithNull_def dataSize_def Uint32Message_generate_def
  state_forwardingBodyToApp_onClientData_def state_forwardingBodyToApp_onClientEof_def
  state_forwardingBodyToApp_onAppOutputWritable_def
  state_forwardingBodyToApp_onClientBodyBufferData_def
  state_forwardingBodyToApp_onClientBodyBufferEnd_def
  onAppOutputWritable_def onClientBodyBufferData_def onClientBodyBufferEnd_def
  clientBodyBuffer_deliver_def worker_takes_def
  writeErrorResponse_def error_page_data_def error_page_params_def error_response_header_def
  processResponseHeader_def writeToClientOutputPipe_def lookupHeader_def string_find_def
  extractHeaderValue_def string_replace_def newStatus_def appendData_def header_empty_def
  empty_Header_def
  and_then_def connected_def freeBufferedConnectPassword_def lift_client_def
  onAppInputData_def onAppInputEof_def new_HttpHeaderBufferer_def
  example_headerBufferer_feed_def
  example_ext_def example_ext_with_def example_feed_def example_rebuildData_def example_client_def example_session_def
  example_options_def new_Client_def resetPrimitiveFields_def new_pipe_def pipe_start_def
  pipe_stop_def pipe_end_def pipe_write_def

text \<open>
  C7, where the code fails. The request \<open>secretH,\<close> reaches the pool, and the pool
  answers with an error that is not a \<^verbatim>\<open>SpawnException\<close>, at once or later. The dynamic
  cast gives an empty pointer, \<^verbatim>\<open>e2->getErrorPage()\<close> dereferences it, and no error page
  is written; the \<^verbatim>\<open>catch (bad_cast)\<close> that would write one is never entered.
\<close>

theorem pool_error_other_than_SpawnException:
  "client_events example_ext [CallbackNow None (Some (OtherException ''pool error''))]
     [ClientSends (''secret'' @ ''H,'') []] (example_client, [])
     = Some (Inl NullPointerDereference)
   \<and> (case client_events example_ext [] [ClientSends (''secret'' @ ''H,'') []] (example_client, []) of
        Some (Inr (client, pending)) \<Rightarrow>
          state client = CHECKING_OUT_SESSION
          \<and> sessionCheckedOut_real example_ext [] client None (Some (OtherException ''pool error''))
              = Inl NullPointerDereference
      | _ \<Rightarrow> False)"
  by (simp add: run_defs onClientRealData_loop.simps Let_def char_of_def bit_Suc_0_iff)

text \<open>
  C9, where the code fails. The pool answers the first \<^verbatim>\<open>asyncGet\<close> before it returns,
  so \<^verbatim>\<open>sessionCheckedOut_real\<close> decrements the counter that \<^verbatim>\<open>checkoutSession\<close> has not
  yet incremented: it wraps around to \<open>2^32 - 1\<close>. The response of the worker then
  exceeds the watermark of the client output pipe; \<^verbatim>\<open>writeToClientOutputPipe\<close> stops the
  worker's reader and increments the counter, to 0. The client is connected, its output
  pipe is committing to disk, and \<open>backgroundOperations\<close> is 0.
\<close>

theorem backgroundOperations_zero_while_committing:
  "map_option (map_sum id (\<lambda>(client, pending). (state client, backgroundOperations client)))
     (client_events example_ext [CallbackNow (Some example_session) None]
        [ClientSends (''secret'' @ ''H,'') []] (example_client, []))
     = Some (Inr (FORWARDING_BODY_TO_APP, - 1))
   \<and> map_option (map_sum id (\<lambda>(client, pending).
         (connected client, committingToDisk (clientOutputPipe client),
          appInput_started client, backgroundOperations client)))
     (client_events example_ext [CallbackNow (Some example_session) None]
        [ClientSends (''secret'' @ ''H,'') [],
         WorkerResponds (''Status: 200'' @ CRLF @ CRLF @ ''hi'')] (example_client, []))
     = Some (Inr (True, True, False, 0))"
  by (simp add: run_defs onClientRealData_loop.simps Let_def char_of_def bit_Suc_0_iff)

text \<open>
  C2, where the code fails. The request \<open>secretH,\<close> with the body \<open>ab\<close>, and a worker
  whose socket answers the first write of the body with \<^verbatim>\<open>EAGAIN\<close>. Without buffering the
  reader of the client is stopped, started again when the socket is writable, and the
  worker receives the frame of the header and then \<open>ab\<close>. With \<^verbatim>\<open>PASSENGER_BUFFERING\<close> the
  body pipe is stopped with \<open>ab\<close> still in it and the same watcher is started, but its
  handler \<^verbatim>\<open>state_forwardingBodyToApp_onAppOutputWritable\<close> asserts that the body is not
  buffered: the worker never receives \<open>ab\<close>. When no write fails, both ways deliver \<open>ab\<close>.
\<close>

theorem buffered_body_not_forwarded_after_EAGAIN:
  "map_option (map_sum id (\<lambda>(client, pending). (worker_received client, worker_write_closed client)))
     (client_events example_ext [CallbackNow (Some example_session) None]
        [ClientSends (''secret'' @ ''H,'' @ ''ab'') [Failed EAGAIN], WorkerWritable (Wrote 0),
         ClientInputResumes [], ClientEof] (example_client, []))
     = Some (Inr ([NUL, NUL, NUL, CHR ''1''] @ ''REQUEST_METHOD'' @ [NUL] @ ''GET'' @ [NUL]
                    @ ''PASSENGER_CONNECT_PASSWORD'' @ [NUL] @ ''pw'' @ [NUL] @ ''ab'', True))
   \<and> map_option (map_sum id (\<lambda>(client, pending).
         (worker_received client, pipe_started (clientBodyBuffer client),
          buffered (clientBodyBuffer client), appOutputWatcher_active client)))
     (client_events (example_ext_with [(''PASSENGER_BUFFERING'', ''true'')])
        [CallbackNow (Some example_session) None]
        [ClientSends (''secret'' @ ''H,'' @ ''ab'') [], ClientEof, BodyBufferDelivers (Failed EAGAIN)]
        (example_client, []))
     = Some (Inr ([NUL, NUL, NUL, CHR ''7''] @ ''PASSENGER_BUFFERING'' @ [NUL] @ ''true'' @ [NUL]
                    @ ''PASSENGER_CONNECT_PASSWORD'' @ [NUL] @ ''pw'' @ [NUL], False, ''ab'', True))
   \<and> client_events (example_ext_with [(''PASSENGER_BUFFERING'', ''true'')])
        [CallbackNow (Some example_session) None]
        [ClientSends (''secret'' @ ''H,'' @ ''ab'') [], ClientEof, BodyBufferDelivers (Failed EAGAIN),
         WorkerWritable (Wrote 0)]
        (example_client, [])
     = Some (Inl AssertionFailed)
   \<and> map_option (map_sum id (\<lambda>(client, pending). (worker_received client, worker_write_closed client)))
     (client_events (example_ext_with [(''PASSENGER_BUFFERING'', ''true'')])
        [CallbackNow (Some example_session) None]
        [ClientSends (''secret'' @ ''H,'' @ ''ab'') [], ClientEof, BodyBufferDelivers (Wrote 2),
         BodyBufferDelivers (Wrote 0)]
        (example_client, []))
     = Some (Inr ([NUL, NUL, NUL, CHR ''7''] @ ''PASSENGER_BUFFERING'' @ [NUL] @ ''true'' @ [NUL]
                    @ ''PASSENGER_CONNECT_PASSWORD'' @ [NUL] @ ''pw'' @ [NUL] @ ''ab'', True))"
  by (simp add: run_defs onClientRealData_loop.simps Let_def char_of_def bit_Suc_0_iff)

subsection \<open>The frame of the header\<close>

lemma four_bytes_of_nat:
  fixes n :: nat
  assumes "n < 2 ^ 32"
  shows "((n div 2 ^ 24 mod 256 * 256 + n div 2 ^ 16 mod 256) * 256 + n div 2 ^ 8 mod 256) * 256
           + n mod 256 = n"
proof -
  define q1 where "q1 = n div 256"
  define q2 where "q2 = q1 div 256"
  define q3 where "q3 = q2 div 256"
  have s1: "q1 * 256 + n mod 256 = n"
    unfolding q1_def by simp
  have s2: "q2 * 256 + q1 mod 256 = q1"
    unfolding q2_def by simp
  have s3: "q3 * 256 + q2 mod 256 = q2"
    unfolding q3_def by simp
  have e1: "n div 2 ^ 8 = q1"
    by (simp add: q1_def)
  have e2: "n div 2 ^ 16 = q2"
    by (simp add: q2_def q1_def div_mult2_eq [symmetric])
  have e3: "n div 2 ^ 24 = q3"
    by (simp add: q3_def q2_def q1_def div_mult2_eq [symmetric])
  have "q3 < 256"
    using assms unfolding e3 [symmetric] by (simp add: less_mult_imp_div_less)
  then have s4: "q3 mod 256 = q3"
    by simp
  show ?thesis
    by (simp only: e1 e2 e3 s4 s3 s2 s1)
qed

lemma big_endian_Uint32Message:
  assumes "n < 2 ^ 32"
  shows "big_endian_value (Uint32Message_generate n) = n"
proof -
  have "big_endian_value (Uint32Message_generate n)
      = ((n div 2 ^ 24 mod 256 * 256 + n div 2 ^ 16 mod 256) * 256 + n div 2 ^ 8 mod 256) * 256
          + n mod 256"
    by (simp add: big_endian_value_def Uint32Message_generate_def)
  with four_bytes_of_nat [OF assms] show ?thesis
    by (simp only:)
qed

lemma dataSize_payload:
  "dataSize [a, b, c] = (length a + length b + length c) mod 2 ^ 32"
  by (simp add: dataSize_def mod_simps)

lemma sendHeaderToApp_data_concat:
  "concat (sendHeaderToApp_data client sess)
     = Uint32Message_generate
         (dataSize [getHeaderData (scgiParser client),
                    makeStaticStringWithNull ''PASSENGER_CONNECT_PASSWORD'',
                    makeStaticStringWithNull (connectPassword sess)])
       @ getHeaderData (scgiParser client)
       @ ''PASSENGER_CONNECT_PASSWORD'' @ [NUL] @ connectPassword sess @ [NUL]"
  by (simp add: sendHeaderToApp_data_def makeStaticStringWithNull_def Let_def)

lemma length_Uint32Message_generate: "length (Uint32Message_generate n) = 4"
  by (simp add: Uint32Message_generate_def)

lemma sendHeaderToApp_data_not_empty: "concat (sendHeaderToApp_data client sess) \<noteq> []"
  by (simp add: sendHeaderToApp_data_def Let_def Uint32Message_generate_def)

text \<open>The first write of the frame: what the socket takes, and what is left for later.\<close>

lemma sendHeaderToApp_first_write:
  assumes "session client = Some sess"
    and "\<not> clientInput_started client" and "\<not> pipe_started (clientBodyBuffer client)"
    and "appOutputBuffer client = []" and "\<not> appOutputWatcher_active client"
    and "failed_not_EAGAIN (header_write_result sess) = None"
  shows "sendHeaderToApp client =
     Inr (if bytes_taken (header_write_result sess) < length (concat (sendHeaderToApp_data client sess))
          then
            client\<lparr>worker_received := worker_received client
                      @ take (bytes_taken (header_write_result sess))
                          (concat (sendHeaderToApp_data client sess)),
                   appOutputBuffer := drop (bytes_taken (header_write_result sess))
                                        (concat (sendHeaderToApp_data client sess)),
                   state := SENDING_HEADER_TO_APP, appOutputWatcher_active := True\<rparr>
          else if requestBodyIsBuffered client then
            client\<lparr>worker_received := worker_received client
                      @ concat (sendHeaderToApp_data client sess),
                   appOutputBuffer := [], state := FORWARDING_BODY_TO_APP,
                   clientBodyBuffer := pipe_start (clientBodyBuffer client)\<rparr>
          else
            client\<lparr>worker_received := worker_received client
                      @ concat (sendHeaderToApp_data client sess),
                   appOutputBuffer := [], state := FORWARDING_BODY_TO_APP,
                   clientInput_started := True\<rparr>)"
proof (cases "header_write_result sess")
  case (Wrote n)
  with assms(1-5) show ?thesis
    apply (simp add: sendHeaderToApp_def gatheredWrite_def Let_def)
    apply (simp add: sendBodyToApp_def Let_def)
    done
next
  case (Failed e)
  with assms(6) have e: "header_write_result sess = Failed EAGAIN"
    by (simp split: if_splits)
  with assms(1-5) sendHeaderToApp_data_not_empty [of client sess] show ?thesis
    by (simp add: sendHeaderToApp_def gatheredWrite_def Let_def)
qed

text \<open>While the watcher of the worker's socket is not active, the socket is not written to.\<close>

lemma writable_ignored:
  "\<not> appOutputWatcher_active c \<Longrightarrow>
   client_events ext pool (map WorkerWritable wrs) (c, p) = Some (Inr (c, p))"
  by (induction wrs) simp_all

text \<open>One more write of what is left of the frame.\<close>

lemma sendingHeader_writable:
  assumes "state c = SENDING_HEADER_TO_APP" and "appOutputWatcher_active c" and "connected c"
    and "\<not> clientInput_started c" and "\<not> pipe_started (clientBodyBuffer c)"
    and "appOutputBuffer c \<noteq> []"
    and "failed_not_EAGAIN wr = None"
  shows "client_event ext pool (WorkerWritable wr) (c, p) =
     Some (Inr
       (if bytes_taken wr < length (appOutputBuffer c) then
          c\<lparr>worker_received := worker_received c @ take (bytes_taken wr) (appOutputBuffer c),
            appOutputBuffer := drop (bytes_taken wr) (appOutputBuffer c)\<rparr>
        else if requestBodyIsBuffered c then
          c\<lparr>worker_received := worker_received c @ appOutputBuffer c, appOutputBuffer := [],
            appOutputWatcher_active := False, state := FORWARDING_BODY_TO_APP,
            clientBodyBuffer := pipe_start (clientBodyBuffer c)\<rparr>
        else
          c\<lparr>worker_received := worker_received c @ appOutputBuffer c, appOutputBuffer := [],
            appOutputWatcher_active := False, state := FORWARDING_BODY_TO_APP,
            clientInput_started := True\<rparr>, p))"
proof (cases wr)
  case (Wrote n)
  with assms show ?thesis
    by (simp add: lift_client_def onAppOutputWritable_def
        state_sendingHeaderToApp_onAppOutputWritable_def gatheredWrite_def sendBodyToApp_def
        and_then_def Let_def)
next
  case (Failed e)
  with assms(7) have "wr = Failed EAGAIN"
    by (simp split: if_splits)
  with assms show ?thesis
    by (simp add: lift_client_def onAppOutputWritable_def
        state_sendingHeaderToApp_onAppOutputWritable_def gatheredWrite_def
        and_then_def Let_def)
qed

text \<open>
  The writes that follow, one for every time the socket is writable: the worker receives
  the buffered bytes in order, and when none is left the client goes on to the body.
\<close>

lemma sendingHeader_flush:
  assumes "\<forall>wr \<in> set wrs. failed_not_EAGAIN wr = None"
    and "state c = SENDING_HEADER_TO_APP" and "appOutputWatcher_active c" and "connected c"
    and "\<not> clientInput_started c" and "\<not> pipe_started (clientBodyBuffer c)"
    and "appOutputBuffer c \<noteq> []"
  shows "case client_events ext pool (map WorkerWritable wrs) (c, p) of
           Some (Inr (c', p')) \<Rightarrow>
             worker_received c'
               = worker_received c @ take (sum_list (map bytes_taken wrs)) (appOutputBuffer c)
             \<and> appOutputBuffer c' = drop (sum_list (map bytes_taken wrs)) (appOutputBuffer c)
             \<and> (if sum_list (map bytes_taken wrs) < length (appOutputBuffer c)
                 then state c' = SENDING_HEADER_TO_APP \<and> appOutputWatcher_active c'
                 else state c' = FORWARDING_BODY_TO_APP \<and> \<not> appOutputWatcher_active c'
                      \<and> (if requestBodyIsBuffered c then pipe_started (clientBodyBuffer c')
                          else clientInput_started c'))
         | _ \<Rightarrow> False"
  using assms
proof (induction wrs arbitrary: c)
  case Nil
  then show ?case by simp
next
  case (Cons wr wrs)
  let ?b = "appOutputBuffer c"
  from Cons.prems(1) have wr: "failed_not_EAGAIN wr = None"
    and wrs: "\<forall>wr \<in> set wrs. failed_not_EAGAIN wr = None"
    by simp_all
  note step = sendingHeader_writable [OF Cons.prems(2-7) wr, of ext pool p]
  show ?case
  proof (cases "bytes_taken wr < length ?b")
    case True
    define c1 where "c1 = c\<lparr>worker_received := worker_received c @ take (bytes_taken wr) ?b,
                              appOutputBuffer := drop (bytes_taken wr) ?b\<rparr>"
    from step True have e: "client_event ext pool (WorkerWritable wr) (c, p) = Some (Inr (c1, p))"
      by (simp add: c1_def)
    have inv: "state c1 = SENDING_HEADER_TO_APP" "appOutputWatcher_active c1" "connected c1"
      "\<not> clientInput_started c1" "\<not> pipe_started (clientBodyBuffer c1)"
      "appOutputBuffer c1 \<noteq> []"
      using Cons.prems(2-7) True by (simp_all add: c1_def connected_def)
    have f: "worker_received c1 = worker_received c @ take (bytes_taken wr) ?b"
      "appOutputBuffer c1 = drop (bytes_taken wr) ?b"
      "requestBodyIsBuffered c1 = requestBodyIsBuffered c"
      by (simp_all add: c1_def)
    have t: "take (bytes_taken wr + n) ?b
        = take (bytes_taken wr) ?b @ take n (drop (bytes_taken wr) ?b)" for n
      by (rule take_add)
    have l: "(n < length ?b - bytes_taken wr) = (bytes_taken wr + n < length ?b)" for n
      using True by auto
    have r: "client_events ext pool (map WorkerWritable (wr # wrs)) (c, p)
        = client_events ext pool (map WorkerWritable wrs) (c1, p)"
      by (simp only: list.map client_events.simps e option.case sum.case)
    from Cons.IH [OF wrs inv] show ?thesis
      unfolding r
      by (auto simp add: f t l add.commute split: option.splits sum.splits prod.splits)
  next
    case False
    define c1 where "c1 =
      (if requestBodyIsBuffered c then
          c\<lparr>worker_received := worker_received c @ appOutputBuffer c, appOutputBuffer := [],
            appOutputWatcher_active := False, state := FORWARDING_BODY_TO_APP,
            clientBodyBuffer := pipe_start (clientBodyBuffer c)\<rparr>
        else
          c\<lparr>worker_received := worker_received c @ appOutputBuffer c, appOutputBuffer := [],
            appOutputWatcher_active := False, state := FORWARDING_BODY_TO_APP,
            clientInput_started := True\<rparr>)"
    from step False have e: "client_event ext pool (WorkerWritable wr) (c, p) = Some (Inr (c1, p))"
      by (simp add: c1_def)
    have "\<not> appOutputWatcher_active c1"
      by (simp add: c1_def)
    from writable_ignored [OF this, of ext pool wrs p]
    have r: "client_events ext pool (map WorkerWritable (wr # wrs)) (c, p) = Some (Inr (c1, p))"
      by (simp only: list.map client_events.simps e option.case sum.case)
    from False show ?thesis
      unfolding r by (simp add: c1_def pipe_start_def)
  qed
qed

text \<open>
  C3. A session is dispatched: the assertions of \<^verbatim>\<open>sendHeaderToApp\<close> hold, nothing is left
  in \<^verbatim>\<open>appOutputBuffer\<close>, and the worker's socket, at the first write and each time it is
  writable afterwards (\<open>wrs\<close>), takes some bytes or answers \<^verbatim>\<open>EAGAIN\<close>. The frame is four
  bytes, then the header block of the parser, then \<open>PASSENGER_CONNECT_PASSWORD\<close> with its
  terminating zero, then the connect password of the session with its terminating zero,
  and the four bytes, read in big-endian order, are the size of what follows them.
  \<^verbatim>\<open>sendHeaderToApp\<close> and the writes that follow it hand the worker the bytes of the frame
  in order, as many as its socket takes, and nothing else; the bytes not yet taken wait
  in \<^verbatim>\<open>appOutputBuffer\<close>, in the state \<open>SENDING_HEADER_TO_APP\<close> with the watcher of the socket
  active; once the socket has taken the whole frame the worker has received exactly the
  frame, the watcher is stopped and the client forwards the body, in the state
  \<open>FORWARDING_BODY_TO_APP\<close>. The size is computed in a \<^verbatim>\<open>uint32_t\<close>; the theorem is about
  payloads whose size fits in it.
\<close>

theorem sendHeaderToApp_frame:
  assumes "length (getHeaderData (scgiParser client)) + length (connectPassword sess) + 28 < 2 ^ 32"
    and "session client = Some sess" and "connected client"
    and "\<not> clientInput_started client" and "\<not> pipe_started (clientBodyBuffer client)"
    and "appOutputBuffer client = []" and "\<not> appOutputWatcher_active client"
    and "failed_not_EAGAIN (header_write_result sess) = None"
    and "\<forall>wr \<in> set wrs. failed_not_EAGAIN wr = None"
  shows "length (take 4 (concat (sendHeaderToApp_data client sess))) = 4
         \<and> drop 4 (concat (sendHeaderToApp_data client sess))
             = getHeaderData (scgiParser client)
                 @ ''PASSENGER_CONNECT_PASSWORD'' @ [NUL] @ connectPassword sess @ [NUL]
         \<and> big_endian_value (take 4 (concat (sendHeaderToApp_data client sess)))
             = length (drop 4 (concat (sendHeaderToApp_data client sess)))
         \<and> (case sendHeaderToApp client of
               Inl f \<Rightarrow> False
             | Inr sent \<Rightarrow>
                 (case client_events ext pool (map WorkerWritable wrs) (sent, pending) of
                    Some (Inr (client', pending')) \<Rightarrow>
                      worker_received client'
                        = worker_received client
                            @ take (bytes_taken (header_write_result sess)
                                      + sum_list (map bytes_taken wrs))
                                (concat (sendHeaderToApp_data client sess))
                      \<and> appOutputBuffer client'
                          = drop (bytes_taken (header_write_result sess)
                                    + sum_list (map bytes_taken wrs))
                              (concat (sendHeaderToApp_data client sess))
                      \<and> (if bytes_taken (header_write_result sess) + sum_list (map bytes_taken wrs)
                               < length (concat (sendHeaderToApp_data client sess))
                          then state client' = SENDING_HEADER_TO_APP
                               \<and> appOutputWatcher_active client'
                          else state client' = FORWARDING_BODY_TO_APP
                               \<and> \<not> appOutputWatcher_active client'
                               \<and> (if requestBodyIsBuffered client
                                   then pipe_started (clientBodyBuffer client')
                                   else clientInput_started client'))
                  | _ \<Rightarrow> False))"
proof -
  let ?payload = "[getHeaderData (scgiParser client),
                   makeStaticStringWithNull ''PASSENGER_CONNECT_PASSWORD'',
                   makeStaticStringWithNull (connectPassword sess)]"
  let ?n = "length (getHeaderData (scgiParser client)) + length (connectPassword sess) + 28"
  let ?frame = "concat (sendHeaderToApp_data client sess)"
  let ?first = "bytes_taken (header_write_result sess)"
  have size: "dataSize ?payload = ?n"
    using assms(1) by (simp add: dataSize_payload makeStaticStringWithNull_def)
  have bev: "big_endian_value (Uint32Message_generate (dataSize ?payload)) = ?n"
    using assms(1) by (simp only: size big_endian_Uint32Message)
  have c1: "length (take 4 ?frame) = 4"
    by (simp add: sendHeaderToApp_data_concat length_Uint32Message_generate)
  have c2: "drop 4 ?frame
      = getHeaderData (scgiParser client)
          @ ''PASSENGER_CONNECT_PASSWORD'' @ [NUL] @ connectPassword sess @ [NUL]"
    by (simp add: sendHeaderToApp_data_concat length_Uint32Message_generate)
  have c3: "big_endian_value (take 4 ?frame) = length (drop 4 ?frame)"
    by (simp add: sendHeaderToApp_data_concat length_Uint32Message_generate bev)
  note first = sendHeaderToApp_first_write [OF assms(2,4-8)]
  have c4: "case sendHeaderToApp client of
               Inl f \<Rightarrow> False
             | Inr sent \<Rightarrow>
                 (case client_events ext pool (map WorkerWritable wrs) (sent, pending) of
                    Some (Inr (client', pending')) \<Rightarrow>
                      worker_received client'
                        = worker_received client
                            @ take (?first + sum_list (map bytes_taken wrs)) ?frame
                      \<and> appOutputBuffer client'
                          = drop (?first + sum_list (map bytes_taken wrs)) ?frame
                      \<and> (if ?first + sum_list (map bytes_taken wrs) < length ?frame
                          then state client' = SENDING_HEADER_TO_APP
                               \<and> appOutputWatcher_active client'
                          else state client' = FORWARDING_BODY_TO_APP
                               \<and> \<not> appOutputWatcher_active client'
                               \<and> (if requestBodyIsBuffered client
                                   then pipe_started (clientBodyBuffer client')
                                   else clientInput_started client'))
                  | _ \<Rightarrow> False)"
  proof (cases "?first < length ?frame")
    case True
    define sent where "sent = client\<lparr>worker_received := worker_received client @ take ?first ?frame,
                   appOutputBuffer := drop ?first ?frame,
                   state := SENDING_HEADER_TO_APP, appOutputWatcher_active := True\<rparr>"
    from first True have s: "sendHeaderToApp client = Inr sent"
      by (simp add: sent_def)
    have inv: "state sent = SENDING_HEADER_TO_APP" "appOutputWatcher_active sent" "connected sent"
      "\<not> clientInput_started sent" "\<not> pipe_started (clientBodyBuffer sent)"
      "appOutputBuffer sent \<noteq> []"
      using assms(3-5) True by (simp_all add: sent_def connected_def)
    have f: "worker_received sent = worker_received client @ take ?first ?frame"
      "appOutputBuffer sent = drop ?first ?frame"
      "requestBodyIsBuffered sent = requestBodyIsBuffered client"
      by (simp_all add: sent_def)
    have t: "take (?first + n) ?frame = take ?first ?frame @ take n (drop ?first ?frame)" for n
      by (rule take_add)
    have l: "(n < length ?frame - ?first) = (?first + n < length ?frame)" for n
      using True by auto
    from sendingHeader_flush [OF assms(9) inv, of ext pool pending] show ?thesis
      unfolding s
      by (auto simp add: f t l add.commute split: option.splits sum.splits prod.splits)
  next
    case False
    define sent where "sent =
      (if requestBodyIsBuffered client then
            client\<lparr>worker_received := worker_received client @ ?frame,
                   appOutputBuffer := [], state := FORWARDING_BODY_TO_APP,
                   clientBodyBuffer := pipe_start (clientBodyBuffer client)\<rparr>
          else
            client\<lparr>worker_received := worker_received client @ ?frame,
                   appOutputBuffer := [], state := FORWARDING_BODY_TO_APP,
                   clientInput_started := True\<rparr>)"
    from first False have s: "sendHeaderToApp client = Inr sent"
      by (simp add: sent_def)
    have "\<not> appOutputWatcher_active sent"
      using assms(7) by (simp add: sent_def)
    then have r: "client_events ext pool (map WorkerWritable wrs) (sent, pending)
        = Some (Inr (sent, pending))"
      by (rule writable_ignored)
    from False assms(7) show ?thesis
      unfolding s by (simp add: r) (simp add: sent_def pipe_start_def)
  qed
  from c1 c2 c3 c4 show ?thesis
    by (intro conjI)
qed

text \<open>
  The frame of the example, 53 bytes, to a worker whose socket takes 10 bytes, then none,
  then 20, then the rest.
\<close>

lemma example_slow_dispatch_client_hyps:
  "length (getHeaderData (scgiParser example_slow_dispatch_client))
     + length (connectPassword example_slow_session) + 28 < (2 :: nat) ^ 32"
  "session example_slow_dispatch_client = Some example_slow_session"
  "connected example_slow_dispatch_client"
  "\<not> clientInput_started example_slow_dispatch_client"
  "\<not> pipe_started (clientBodyBuffer example_slow_dispatch_client)"
  "appOutputBuffer example_slow_dispatch_client = []"
  "\<not> appOutputWatcher_active example_slow_dispatch_client"
  "failed_not_EAGAIN (header_write_result example_slow_session) = None"
  "worker_received example_slow_dispatch_client = []"
  "\<not> requestBodyIsBuffered example_slow_dispatch_client"
  "bytes_taken (header_write_result example_slow_session) = 10"
  by (simp_all add: example_slow_dispatch_client_def example_slow_session_def
      example_dispatch_client_def example_session_def example_client_def
      new_Client_def resetPrimitiveFields_def freeBufferedConnectPassword_def new_pipe_def
      connected_def)

lemma example_slow_frame:
  "concat (sendHeaderToApp_data example_slow_dispatch_client example_slow_session)
     = [NUL, NUL, NUL, CHR ''1''] @ ''REQUEST_METHOD'' @ [NUL] @ ''GET'' @ [NUL]
         @ ''PASSENGER_CONNECT_PASSWORD'' @ [NUL] @ ''pw'' @ [NUL]"
  by (simp add: sendHeaderToApp_data_def makeStaticStringWithNull_def dataSize_def
      Uint32Message_generate_def Let_def char_of_def bit_Suc_0_iff
      example_slow_dispatch_client_def example_slow_session_def
      example_dispatch_client_def example_session_def)

theorem sendHeaderToApp_frame_witness:
  "session example_slow_dispatch_client = Some example_slow_session
   \<and> failed_not_EAGAIN (header_write_result example_slow_session) = None
   \<and> map failed_not_EAGAIN [Failed EAGAIN, Wrote 20, Wrote 100] = [None, None, None]
   \<and> big_endian_value
       (take 4 (concat (sendHeaderToApp_data example_slow_dispatch_client example_slow_session)))
       = 49
   \<and> (case sendHeaderToApp example_slow_dispatch_client of
         Inl f \<Rightarrow> False
       | Inr sent \<Rightarrow>
           (case client_events example_ext [] (map WorkerWritable [Failed EAGAIN, Wrote 20, Wrote 100])
                   (sent, []) of
              Some (Inr (client', pending')) \<Rightarrow>
                worker_received client'
                  = [NUL, NUL, NUL, CHR ''1''] @ ''REQUEST_METHOD'' @ [NUL] @ ''GET'' @ [NUL]
                      @ ''PASSENGER_CONNECT_PASSWORD'' @ [NUL] @ ''pw'' @ [NUL]
                \<and> appOutputBuffer client' = []
                \<and> state client' = FORWARDING_BODY_TO_APP
                \<and> clientInput_started client'
            | _ \<Rightarrow> False))"
proof -
  note h = example_slow_dispatch_client_hyps
  have w: "\<forall>wr \<in> set [Failed EAGAIN, Wrote 20, Wrote 100]. failed_not_EAGAIN wr = None"
    by simp
  note r = sendHeaderToApp_frame [OF h(1-8) w, of example_ext "[]" "[]"]
  from r have "big_endian_value
      (take 4 (concat (sendHeaderToApp_data example_slow_dispatch_client example_slow_session)))
      = length (drop 4 (concat (sendHeaderToApp_data example_slow_dispatch_client example_slow_session)))"
    by (elim conjE)
  then have c: "big_endian_value
      (take 4 (concat (sendHeaderToApp_data example_slow_dispatch_client example_slow_session)))
      = 49"
    by (simp add: example_slow_frame)
  from r have "case sendHeaderToApp example_slow_dispatch_client of
         Inl f \<Rightarrow> False
       | Inr sent \<Rightarrow>
           (case client_events example_ext [] (map WorkerWritable [Failed EAGAIN, Wrote 20, Wrote 100])
                   (sent, []) of
              Some (Inr (client', pending')) \<Rightarrow>
                worker_received client'
                  = worker_received example_slow_dispatch_client
                      @ take (bytes_taken (header_write_result example_slow_session)
                                + sum_list (map bytes_taken [Failed EAGAIN, Wrote 20, Wrote 100]))
                          (concat (sendHeaderToApp_data example_slow_dispatch_client
                                     example_slow_session))
                \<and> appOutputBuffer client'
                    = drop (bytes_taken (header_write_result example_slow_session)
                              + sum_list (map bytes_taken [Failed EAGAIN, Wrote 20, Wrote 100]))
                        (concat (sendHeaderToApp_data example_slow_dispatch_client
                                   example_slow_session))
                \<and> (if bytes_taken (header_write_result example_slow_session)
                         + sum_list (map bytes_taken [Failed EAGAIN, Wrote 20, Wrote 100])
                       < length (concat (sendHeaderToApp_data example_slow_dispatch_client
                                           example_slow_session))
                    then state client' = SENDING_HEADER_TO_APP \<and> appOutputWatcher_active client'
                    else state client' = FORWARDING_BODY_TO_APP
                         \<and> \<not> appOutputWatcher_active client'
                         \<and> (if requestBodyIsBuffered example_slow_dispatch_client
                             then pipe_started (clientBodyBuffer client')
                             else clientInput_started client'))
            | _ \<Rightarrow> False)"
    by (elim conjE)
  then have d: "case sendHeaderToApp example_slow_dispatch_client of
         Inl f \<Rightarrow> False
       | Inr sent \<Rightarrow>
           (case client_events example_ext [] (map WorkerWritable [Failed EAGAIN, Wrote 20, Wrote 100])
                   (sent, []) of
              Some (Inr (client', pending')) \<Rightarrow>
                worker_received client'
                  = [NUL, NUL, NUL, CHR ''1''] @ ''REQUEST_METHOD'' @ [NUL] @ ''GET'' @ [NUL]
                      @ ''PASSENGER_CONNECT_PASSWORD'' @ [NUL] @ ''pw'' @ [NUL]
                \<and> appOutputBuffer client' = []
                \<and> state client' = FORWARDING_BODY_TO_APP
                \<and> clientInput_started client'
            | _ \<Rightarrow> False)"
    by (auto simp del: client_events.simps client_event.simps
        simp add: h(9-11) example_slow_frame
        split: sum.splits option.splits prod.splits)
  have m: "map failed_not_EAGAIN [Failed EAGAIN, Wrote 20, Wrote 100] = [None, None, None]"
    by simp
  from h(2) h(8) m c d show ?thesis
    by (intro conjI)
qed

subsection \<open>The rewrites of the header map\<close>

lemma move_or_drop_one:
  assumes "hl \<noteq> l"
  shows "move_or_drop hl l (m, b)
         = (m(l := (if m l = None then m hl else m l), hl := None), b \<or> m hl \<noteq> None)"
  using assms by (cases "m hl") (auto simp: move_or_drop_def fun_eq_iff)

lemma move_or_drop_twice:
  assumes "distinct [hl, l, ht, t]"
  shows "move_or_drop ht t (move_or_drop hl l (m, False))
         = (m(l := (if m l = None then m hl else m l),
              t := (if m t = None then m ht else m t),
              hl := None, ht := None),
            m hl \<noteq> None \<or> m ht \<noteq> None)"
proof -
  from assms have d: "hl \<noteq> l" "ht \<noteq> t" "hl \<noteq> ht" "hl \<noteq> t" "l \<noteq> ht" "l \<noteq> t"
    by auto
  show ?thesis
    unfolding move_or_drop_one [OF d(1)] move_or_drop_one [OF d(2)]
    using d by (auto simp: fun_eq_iff)
qed

lemma modified_iff_changed:
  assumes "distinct [hl, l, ht, t]"
  shows "(m(l := (if m l = None then m hl else m l),
              t := (if m t = None then m ht else m t),
              hl := None, ht := None) \<noteq> m) = (m hl \<noteq> None \<or> m ht \<noteq> None)"
proof
  assume "m(l := (if m l = None then m hl else m l),
              t := (if m t = None then m ht else m t),
              hl := None, ht := None) \<noteq> m"
  then obtain k where "(m(l := (if m l = None then m hl else m l),
              t := (if m t = None then m ht else m t),
              hl := None, ht := None)) k \<noteq> m k"
    by (meson ext)
  with assms show "m hl \<noteq> None \<or> m ht \<noteq> None"
    by (auto split: if_splits)
next
  assume a: "m hl \<noteq> None \<or> m ht \<noteq> None"
  show "m(l := (if m l = None then m hl else m l),
              t := (if m t = None then m ht else m t),
              hl := None, ht := None) \<noteq> m"
  proof
    assume e: "m(l := (if m l = None then m hl else m l),
              t := (if m t = None then m ht else m t),
              hl := None, ht := None) = m"
    from assms fun_cong [OF e, of hl] fun_cong [OF e, of ht] a show False
      by (simp split: if_splits)
  qed
qed

lemma header_names_distinct:
  "distinct [''HTTP_CONTENT_LENGTH'', ''CONTENT_LENGTH'', ''HTTP_CONTENT_TYPE'', ''CONTENT_TYPE'']"
  by simp

lemma modifyClientHeaders_eq:
  "modifyClientHeaders client =
     (let m = scgi_headers (scgiParser client) in
      (client\<lparr>scgiParser := (scgiParser client)
          \<lparr>scgi_headers :=
             m(''CONTENT_LENGTH'' := (if m ''CONTENT_LENGTH'' = None then m ''HTTP_CONTENT_LENGTH''
                                      else m ''CONTENT_LENGTH''),
               ''CONTENT_TYPE'' := (if m ''CONTENT_TYPE'' = None then m ''HTTP_CONTENT_TYPE''
                                    else m ''CONTENT_TYPE''),
               ''HTTP_CONTENT_LENGTH'' := None, ''HTTP_CONTENT_TYPE'' := None)\<rparr>\<rparr>,
       m ''HTTP_CONTENT_LENGTH'' \<noteq> None \<or> m ''HTTP_CONTENT_TYPE'' \<noteq> None))"
  by (simp only: modifyClientHeaders_def Let_def fst_conv snd_conv
      move_or_drop_twice [OF header_names_distinct])

text \<open>
  C4. When the parser has completed the header (\<^verbatim>\<open>feed\<close> leaves it in the state done), the
  header map \<open>m\<close> it produced is rewritten to \<open>m'\<close>: \<^verbatim>\<open>HTTP_CONTENT_LENGTH\<close> and
  \<^verbatim>\<open>HTTP_CONTENT_TYPE\<close> are erased; \<^verbatim>\<open>CONTENT_LENGTH\<close> keeps its value if it has one and
  otherwise gets that of \<^verbatim>\<open>HTTP_CONTENT_LENGTH\<close>, and the same for \<^verbatim>\<open>CONTENT_TYPE\<close>; every
  other key is untouched. \<^verbatim>\<open>modifyClientHeaders\<close> returns true iff one of the two
  \<^verbatim>\<open>HTTP_\<close> keys was present, which is the case iff the map changed, and this flag is
  what \<^verbatim>\<open>rebuildData\<close> is called with before the client goes on to buffer the body or to
  check out a session.
\<close>

theorem header_rewrites_on_completion:
  assumes "scgi_feed ext (scgiParser client) data = (consumed, parser)"
    and "scgi_status parser = SCGI_DONE"
    and "m = scgi_headers parser"
    and "m' = m(''CONTENT_LENGTH'' := (if m ''CONTENT_LENGTH'' = None then m ''HTTP_CONTENT_LENGTH''
                                       else m ''CONTENT_LENGTH''),
                ''CONTENT_TYPE'' := (if m ''CONTENT_TYPE'' = None then m ''HTTP_CONTENT_TYPE''
                                     else m ''CONTENT_TYPE''),
                ''HTTP_CONTENT_LENGTH'' := None, ''HTTP_CONTENT_TYPE'' := None)"
    and "modified = (m ''HTTP_CONTENT_LENGTH'' \<noteq> None \<or> m ''HTTP_CONTENT_TYPE'' \<noteq> None)"
    and "client1 = client\<lparr>scgiParser := scgi_rebuildData ext modified (parser\<lparr>scgi_headers := m'\<rparr>)\<rparr>"
  shows "modifyClientHeaders (client\<lparr>scgiParser := parser\<rparr>)
           = (client\<lparr>scgiParser := parser\<lparr>scgi_headers := m'\<rparr>\<rparr>, modified)
         \<and> modified = (m' \<noteq> m)
         \<and> state_readingHeader_onClientData ext pool client data
             = (if getBoolOption client1 ''PASSENGER_BUFFERING'' False
                then Inr (client1\<lparr>state := BUFFERING_REQUEST_BODY, requestBodyIsBuffered := True\<rparr>,
                          consumed)
                else and_then (checkoutSession ext pool (client1\<lparr>clientInput_started := False\<rparr>))
                       (\<lambda>client. Inr (client, consumed)))"
proof -
  have a: "modifyClientHeaders (client\<lparr>scgiParser := parser\<rparr>)
             = (client\<lparr>scgiParser := parser\<lparr>scgi_headers := m'\<rparr>\<rparr>, modified)"
    unfolding assms(3-5) by (simp add: modifyClientHeaders_eq Let_def)
  have b: "modified = (m' \<noteq> m)"
    unfolding assms(4,5) by (simp only: modified_iff_changed [OF header_names_distinct])
  have c: "state_readingHeader_onClientData ext pool client data
             = (if getBoolOption client1 ''PASSENGER_BUFFERING'' False
                then Inr (client1\<lparr>state := BUFFERING_REQUEST_BODY, requestBodyIsBuffered := True\<rparr>,
                          consumed)
                else and_then (checkoutSession ext pool (client1\<lparr>clientInput_started := False\<rparr>))
                       (\<lambda>client. Inr (client, consumed)))"
    unfolding assms(6) state_readingHeader_onClientData_def
    by (simp add: assms(1,2) a Let_def)
  from a b c show ?thesis
    by (intro conjI)
qed

theorem header_rewrites_on_completion_witness:
  "scgi_feed (example_ext_with example_http_headers) (scgiParser example_client) ''H,''
     = (2, example_parsed)
   \<and> scgi_status example_parsed = SCGI_DONE
   \<and> snd (modifyClientHeaders (example_client\<lparr>scgiParser := example_parsed\<rparr>))
   \<and> map (scgi_headers (scgiParser
              (fst (modifyClientHeaders (example_client\<lparr>scgiParser := example_parsed\<rparr>)))))
         [''HTTP_CONTENT_LENGTH'', ''CONTENT_LENGTH'', ''HTTP_CONTENT_TYPE'', ''CONTENT_TYPE'']
       = [None, Some ''5'', None, Some ''text/plain'']"
proof -
  have f: "scgi_feed (example_ext_with example_http_headers) (scgiParser example_client) ''H,''
             = (2, example_parsed)"
    by (simp add: example_ext_with_def example_feed_def example_parsed_def example_client_def
        new_Client_def resetPrimitiveFields_def freeBufferedConnectPassword_def)
  have s: "scgi_status example_parsed = SCGI_DONE"
    by (simp add: example_parsed_def)
  have m: "map (scgi_headers example_parsed)
             [''HTTP_CONTENT_LENGTH'', ''CONTENT_LENGTH'', ''HTTP_CONTENT_TYPE'', ''CONTENT_TYPE'']
           = [Some ''5'', None, Some ''text/html'', Some ''text/plain'']"
    by (simp add: example_parsed_def example_http_headers_def)
  note r = header_rewrites_on_completion [OF f s refl refl refl refl, of "[]"]
  from r have e: "modifyClientHeaders (example_client\<lparr>scgiParser := example_parsed\<rparr>)
      = (example_client\<lparr>scgiParser := example_parsed
           \<lparr>scgi_headers := (scgi_headers example_parsed)
              (''CONTENT_LENGTH'' :=
                 (if scgi_headers example_parsed ''CONTENT_LENGTH'' = None
                  then scgi_headers example_parsed ''HTTP_CONTENT_LENGTH''
                  else scgi_headers example_parsed ''CONTENT_LENGTH''),
               ''CONTENT_TYPE'' :=
                 (if scgi_headers example_parsed ''CONTENT_TYPE'' = None
                  then scgi_headers example_parsed ''HTTP_CONTENT_TYPE''
                  else scgi_headers example_parsed ''CONTENT_TYPE''),
               ''HTTP_CONTENT_LENGTH'' := None, ''HTTP_CONTENT_TYPE'' := None)\<rparr>\<rparr>,
         scgi_headers example_parsed ''HTTP_CONTENT_LENGTH'' \<noteq> None
         \<or> scgi_headers example_parsed ''HTTP_CONTENT_TYPE'' \<noteq> None)"
    by (elim conjE)
  from m have c3: "snd (modifyClientHeaders (example_client\<lparr>scgiParser := example_parsed\<rparr>))"
    unfolding e by simp
  from m have c4: "map (scgi_headers (scgiParser
              (fst (modifyClientHeaders (example_client\<lparr>scgiParser := example_parsed\<rparr>)))))
         [''HTTP_CONTENT_LENGTH'', ''CONTENT_LENGTH'', ''HTTP_CONTENT_TYPE'', ''CONTENT_TYPE'']
       = [None, Some ''5'', None, Some ''text/plain'']"
    unfolding e by simp
  from f s c3 c4 show ?thesis
    by (intro conjI)
qed

subsection \<open>Retrying the checkout\<close>

lemma writeErrorResponse_asyncGet_calls:
  "writeErrorResponse ext client message e = Inr client' \<Longrightarrow>
   asyncGet_calls client' = asyncGet_calls client"
  by (auto simp: writeErrorResponse_def Let_def split: if_splits)

lemma disconnectWithError_asyncGet_calls:
  "disconnectWithError client message = Inr client' \<Longrightarrow>
   asyncGet_calls client' = asyncGet_calls client"
  by (auto simp: disconnectWithError_def disconnect_def discard_def verifyInvariants_def
      and_then_def resetPrimitiveFields_def freeBufferedConnectPassword_def split: if_splits)

lemma sendBodyToApp_asyncGet_calls:
  "sendBodyToApp client = Inr client' \<Longrightarrow> asyncGet_calls client' = asyncGet_calls client"
  by (auto simp: sendBodyToApp_def Let_def split: if_splits)

lemma gatheredWrite_asyncGet_calls:
  "asyncGet_calls (gatheredWrite wr parts client) = asyncGet_calls client"
  by (simp add: gatheredWrite_def Let_def split: write_result.splits errno.splits)

lemma sendHeaderToApp_asyncGet_calls:
  "sendHeaderToApp client = Inr client' \<Longrightarrow> asyncGet_calls client' = asyncGet_calls client"
  by (auto simp: sendHeaderToApp_def Let_def disconnectWithAppSocketWriteError_def
      gatheredWrite_asyncGet_calls
      dest!: disconnectWithError_asyncGet_calls sendBodyToApp_asyncGet_calls
      split: if_splits option.splits)


lemma asyncGet_calls_extend:
  "sessionCheckedOut_real ext pool client sess e = Inr c' \<Longrightarrow>
     \<exists>xs. asyncGet_calls c' = asyncGet_calls client @ xs"
  "initiateSession ext pool client = Inr c'' \<Longrightarrow>
     \<exists>xs. asyncGet_calls c'' = asyncGet_calls client @ xs"
proof (induction ext pool client sess e and ext pool client arbitrary: c' and c''
    rule: sessionCheckedOut_real_initiateSession.induct)
  case (1 ext pool client sess e)
  have IH: "\<exists>xs. asyncGet_calls c = asyncGet_calls client @ xs"
    if "connected client" "\<not> clientInput_started client"
      "\<not> pipe_started (clientBodyBuffer client)" "e = None"
      "initiateSession ext pool
         (client\<lparr>backgroundOperations := backgroundOperations client - 1,
                 sessionCheckedOut := True, session := sess\<rparr>) = Inr c" for c
    using "1.IH" [OF _ _ refl, of c] that by simp
  from "1.prems" show ?case
    apply (subst (asm) sessionCheckedOut_real.simps)
    apply (simp only: Let_def split: if_splits option.splits)
    apply (auto intro: IH dest!: writeErrorResponse_asyncGet_calls)
    done
next
  case (2 ext pool client)
  have IH: "\<exists>xs. asyncGet_calls c = asyncGet_calls client @ options client # xs"
    if "state client = CHECKING_OUT_SESSION" "session client = Some s"
      "initiate_result s = ThrowsSystemException msg" "sessionCheckoutTry client + 1 < 10"
      "pool = CallbackNow sess' e' # pool'"
      "sessionCheckedOut_real ext pool'
         (client\<lparr>sessionCheckoutTry := sessionCheckoutTry client + 1,
                 sessionCheckedOut := False,
                 asyncGet_calls := asyncGet_calls client @ [options client]\<rparr>) sess' e' = Inr c"
    for c s msg sess' e' pool'
    using that "2.IH" [OF _ refl _ _ _ refl _ refl] by simp
  have IH': "\<exists>xs. asyncGet_calls c = asyncGet_calls client @ xs"
    if "state client = CHECKING_OUT_SESSION" "session client = Some s"
      "initiate_result s = ThrowsSystemException msg" "sessionCheckoutTry client + 1 < 10"
      "pool = CallbackNow sess' e' # pool'"
      "sessionCheckedOut_real ext pool'
         (client\<lparr>sessionCheckoutTry := sessionCheckoutTry client + 1,
                 sessionCheckedOut := False,
                 asyncGet_calls := asyncGet_calls client @ [options client]\<rparr>) sess' e' = Inr c"
    for c s msg sess' e' pool'
  proof -
    from IH [OF that] obtain xs where "asyncGet_calls c = asyncGet_calls client @ options client # xs"
      by (elim exE)
    then show ?thesis
      by (intro exI [of _ "options client # xs"])
  qed
  from "2.prems" show ?case
    apply (subst (asm) initiateSession.simps)
    apply (simp only: Let_def split: if_splits option.splits initiate_outcome.splits)
    apply (auto simp: and_then_def
        dest!: disconnectWithError_asyncGet_calls sendHeaderToApp_asyncGet_calls
        split: list.splits pool_reply.splits sum.splits if_splits)
     apply (rule IH'; assumption)+
    done
qed


lemma initiateSession_retry:
  assumes "state client = CHECKING_OUT_SESSION" and "session client = Some s"
    and "initiate_result s = ThrowsSystemException msg"
    and "sessionCheckoutTry client + 1 < 10"
  shows "initiateSession ext pool client =
           (case pool of
              CallbackNow sess' e' # pool' \<Rightarrow>
                and_then
                  (sessionCheckedOut_real ext pool'
                     (client\<lparr>sessionCheckoutTry := sessionCheckoutTry client + 1,
                             sessionCheckedOut := False,
                             asyncGet_calls := asyncGet_calls client @ [options client]\<rparr>)
                     sess' e')
                  (\<lambda>client.
                     if \<not> sessionCheckedOut client
                     then Inr (client\<lparr>backgroundOperations := backgroundOperations client + 1\<rparr>)
                     else Inr client)
            | _ \<Rightarrow>
                Inr (client\<lparr>sessionCheckoutTry := sessionCheckoutTry client + 1,
                            sessionCheckedOut := False,
                            asyncGet_calls := asyncGet_calls client @ [options client],
                            backgroundOperations := backgroundOperations client + 1\<rparr>))"
  using assms
  by (subst initiateSession.simps) (simp add: Let_def split: list.splits pool_reply.splits)

lemma initiateSession_gives_up:
  assumes "state client = CHECKING_OUT_SESSION" and "session client = Some s"
    and "initiate_result s = ThrowsSystemException msg"
    and "\<not> sessionCheckoutTry client + 1 < 10"
  shows "initiateSession ext pool client =
           disconnectWithError (client\<lparr>sessionCheckoutTry := sessionCheckoutTry client + 1\<rparr>)
             ''could not initiate a session''"
  using assms
  by (subst initiateSession.simps) (simp add: Let_def)

text \<open>
  C8. A client in \<open>CHECKING_OUT_SESSION\<close> whose session throws a \<^verbatim>\<open>SystemException\<close> from
  \<^verbatim>\<open>initiate\<close>. The attempt is counted first. While the count is below 10, the pool is
  asked again with the options of the client, unchanged: the request is appended to the
  requests the pool has received; if the pool calls back later, nothing else happens than
  that the client waits in the same state with one more background operation, and a
  failure can only come out of a callback that runs inside the call. Once the count has
  reached 10 the pool is not asked again and the client is disconnected with the warning
  "could not initiate a session".
\<close>

theorem initiateSession_retries_below_ten:
  assumes "connected client" and "state client = CHECKING_OUT_SESSION"
    and "session client = Some s" and "initiate_result s = ThrowsSystemException msg"
  shows "if sessionCheckoutTry client + 1 < 10
         then (case initiateSession ext pool client of
                 Inl f \<Rightarrow> \<not> calls_back_later pool
               | Inr client' \<Rightarrow>
                   (\<exists>calls. asyncGet_calls client' = asyncGet_calls client @ options client # calls)
                   \<and> (calls_back_later pool \<longrightarrow>
                        client' = client\<lparr>sessionCheckoutTry := sessionCheckoutTry client + 1,
                                         sessionCheckedOut := False,
                                         asyncGet_calls := asyncGet_calls client @ [options client],
                                         backgroundOperations := backgroundOperations client + 1\<rparr>))
         else (case initiateSession ext pool client of
                 Inl f \<Rightarrow> False
               | Inr client' \<Rightarrow>
                   state client' = DISCONNECTED \<and> \<not> connected client'
                   \<and> asyncGet_calls client' = asyncGet_calls client
                   \<and> logged client' = logged client
                        @ [WARN ''Disconnecting with error: could not initiate a session''])"
proof (cases "sessionCheckoutTry client + 1 < 10")
  case True
  note retry = initiateSession_retry [OF assms(2-4) True, of ext pool]
  show ?thesis
  proof (cases "calls_back_later pool")
    case True
    then have "initiateSession ext pool client =
        Inr (client\<lparr>sessionCheckoutTry := sessionCheckoutTry client + 1,
                    sessionCheckedOut := False,
                    asyncGet_calls := asyncGet_calls client @ [options client],
                    backgroundOperations := backgroundOperations client + 1\<rparr>)"
      unfolding retry by (cases pool rule: calls_back_later.cases) simp_all
    with \<open>sessionCheckoutTry client + 1 < 10\<close> show ?thesis
      by simp
  next
    case False
    then obtain sess' e' pool' where pool: "pool = CallbackNow sess' e' # pool'"
      by (cases pool rule: calls_back_later.cases) simp_all
    let ?c1 = "client\<lparr>sessionCheckoutTry := sessionCheckoutTry client + 1,
                      sessionCheckedOut := False,
                      asyncGet_calls := asyncGet_calls client @ [options client]\<rparr>"
    show ?thesis
    proof (cases "sessionCheckedOut_real ext pool' ?c1 sess' e'")
      case (Inl f)
      with pool retry True show ?thesis
        by (simp add: and_then_def)
    next
      case (Inr mid)
      from asyncGet_calls_extend(1) [OF Inr]
      obtain xs where "asyncGet_calls mid = asyncGet_calls client @ options client # xs"
        by auto
      with pool retry True Inr show ?thesis
        by (simp add: and_then_def)
    qed
  qed
next
  case False
  from disconnectWithError_connected [of "client\<lparr>sessionCheckoutTry := sessionCheckoutTry client + 1\<rparr>"
      "''could not initiate a session''"] assms(1)
  obtain client' where
    "disconnectWithError (client\<lparr>sessionCheckoutTry := sessionCheckoutTry client + 1\<rparr>)
       ''could not initiate a session'' = Inr client'"
    "state client' = DISCONNECTED" "\<not> requestHandler client'"
    "asyncGet_calls client' = asyncGet_calls client"
    "logged client' = logged client @ [WARN (''Disconnecting with error: '' @ ''could not initiate a session'')]"
    by (auto simp: connected_def)
  with False initiateSession_gives_up [OF assms(2-4) False, of ext pool] show ?thesis
    by (simp add: connected_def)
qed

lemma example_retrying_client_hyps:
  "connected (example_retrying_client tries)"
  "state (example_retrying_client tries) = CHECKING_OUT_SESSION"
  "session (example_retrying_client tries) = Some example_refusing_session"
  "initiate_result example_refusing_session = ThrowsSystemException ''Cannot connect to the worker''"
  "sessionCheckoutTry (example_retrying_client tries) = tries"
  "asyncGet_calls (example_retrying_client tries) = []"
  "options (example_retrying_client tries) = example_options"
  "backgroundOperations (example_retrying_client tries) = 0"
  by (simp_all add: example_retrying_client_def example_dispatch_client_def example_client_def
      example_refusing_session_def connected_def new_Client_def resetPrimitiveFields_def
      freeBufferedConnectPassword_def)

theorem initiateSession_retries_below_ten_witness:
  "connected (example_retrying_client 1)
   \<and> state (example_retrying_client 1) = CHECKING_OUT_SESSION
   \<and> session (example_retrying_client 1) = Some example_refusing_session
   \<and> initiate_result example_refusing_session = ThrowsSystemException ''Cannot connect to the worker''
   \<and> map_sum id (\<lambda>client'. (state client', sessionCheckoutTry client', asyncGet_calls client',
                              backgroundOperations client'))
         (initiateSession example_ext [] (example_retrying_client 1))
       = Inr (CHECKING_OUT_SESSION, 2, [example_options], 1)
   \<and> map_sum id (\<lambda>client'. (state client', asyncGet_calls client'))
         (initiateSession example_ext [] (example_retrying_client 9))
       = Inr (DISCONNECTED, [])"
proof -
  note h = example_retrying_client_hyps
  have lt: "(1 :: 32 word) + 1 < 10" "\<not> (9 :: 32 word) + 1 < 10"
    by simp_all
  from initiateSession_retries_below_ten
         [where client = "example_retrying_client 1" and ext = example_ext and pool = "[]",
          OF h(1-4)] lt(1)
  have "case initiateSession example_ext [] (example_retrying_client 1) of
          Inl f \<Rightarrow> False
        | Inr client' \<Rightarrow>
            client' = (example_retrying_client 1)
              \<lparr>sessionCheckoutTry := 2, sessionCheckedOut := False,
               asyncGet_calls := [example_options], backgroundOperations := 1\<rparr>"
    by (simp add: h(5-8) split: sum.splits)
  then have a: "map_sum id (\<lambda>client'. (state client', sessionCheckoutTry client',
                  asyncGet_calls client', backgroundOperations client'))
         (initiateSession example_ext [] (example_retrying_client 1))
       = Inr (CHECKING_OUT_SESSION, 2, [example_options], 1)"
    by (cases "initiateSession example_ext [] (example_retrying_client 1)") (simp_all add: h(2))
  from initiateSession_retries_below_ten
         [where client = "example_retrying_client 9" and ext = example_ext and pool = "[]",
          OF h(1-4)] lt(2)
  have "case initiateSession example_ext [] (example_retrying_client 9) of
          Inl f \<Rightarrow> False
        | Inr client' \<Rightarrow> state client' = DISCONNECTED \<and> asyncGet_calls client' = []"
    by (simp add: h(5-8) split: sum.splits)
  then have b: "map_sum id (\<lambda>client'. (state client', asyncGet_calls client'))
         (initiateSession example_ext [] (example_retrying_client 9))
       = Inr (DISCONNECTED, [])"
    by (cases "initiateSession example_ext [] (example_retrying_client 9)") simp_all
  from h(1-4) a b show ?thesis
    by (intro conjI)
qed

subsection \<open>The connect password in chunks\<close>

lemma loop_done:
  assumes "\<not> (consumed < length buf \<and> connected client \<and> clientInput_started client)"
  shows "onClientRealData_loop ext pool wrs client buf consumed = Some (Inr (client, consumed))"
  by (subst onClientRealData_loop.simps) (simp only: assms if_False)

lemma loop_first_round:
  assumes "buf \<noteq> []" and "connected client" and "clientInput_started client"
    and "state client \<noteq> FORWARDING_BODY_TO_APP"
    and "onClientRealData_switch ext pool (case wrs of [] \<Rightarrow> Wrote (length buf) | w # ws \<Rightarrow> w)
           client buf = Inr (client', k)"
    and "k \<le> length buf"
  shows "onClientRealData_loop ext pool wrs client buf 0
           = onClientRealData_loop ext pool wrs client' buf k"
  using assms(1-4,6)
  by (subst onClientRealData_loop.simps) (simp add: assms(5) Let_def)

lemma password_buffered_fields:
  assumes "state client = BEGIN_READING_CONNECT_PASSWORD"
    and "bufferedConnectPassword_data client = None"
    and "bufferedConnectPassword_alreadyRead client = 0"
  shows "connected (password_buffered client bytes) = connected client"
    and "clientInput_started (password_buffered client bytes) = clientInput_started client"
    and "state (password_buffered client bytes)
           = (if bytes = [] then BEGIN_READING_CONNECT_PASSWORD else STILL_READING_CONNECT_PASSWORD)"
    and "bufferedConnectPassword_alreadyRead (password_buffered client bytes) = length bytes"
    and "bufferedConnectPassword_data (password_buffered client bytes)
           = (if bytes = [] then None else Some bytes)"
  using assms by (simp_all add: password_buffered_def connected_def)

text \<open>One more chunk that still leaves the password incomplete is buffered.\<close>

lemma password_chunk_buffered:
  assumes fresh: "state client = BEGIN_READING_CONNECT_PASSWORD"
      "bufferedConnectPassword_data client = None"
      "bufferedConnectPassword_alreadyRead client = 0"
    and "chunk \<noteq> []"
    and short: "length (bytes @ chunk) < length (requestSocketPassword ext)"
  shows "onClientRealData_switch ext pool wr (password_buffered client bytes) chunk
           = Inr (password_buffered client (bytes @ chunk), length chunk)"
proof (cases "bytes = []")
  case True
  with fresh short \<open>chunk \<noteq> []\<close> show ?thesis
    by (simp add: onClientRealData_switch_def password_buffered_def
        state_beginReadingConnectPassword_onClientData_def)
next
  case False
  with fresh short \<open>chunk \<noteq> []\<close> show ?thesis
    by (simp add: onClientRealData_switch_def password_buffered_def
        state_stillReadingConnectPassword_onClientData_def Let_def min_def)
qed

text \<open>The chunk that completes the password, when the bytes are the password.\<close>

lemma password_chunk_accepted:
  assumes fresh: "state client = BEGIN_READING_CONNECT_PASSWORD"
      "bufferedConnectPassword_data client = None"
      "bufferedConnectPassword_alreadyRead client = 0"
    and short: "length bytes < length (requestSocketPassword ext)"
    and full: "length (requestSocketPassword ext) \<le> length (bytes @ chunk)"
    and good: "take (length (requestSocketPassword ext)) (bytes @ chunk) = requestSocketPassword ext"
  shows "onClientRealData_switch ext pool wr (password_buffered client bytes) chunk
           = Inr (password_accepted ext client, length (requestSocketPassword ext) - length bytes)"
proof (cases "bytes = []")
  case True
  with fresh full good show ?thesis
    by (simp add: onClientRealData_switch_def password_buffered_def password_accepted_def
        state_beginReadingConnectPassword_onClientData_def checkConnectPassword_def
        freeBufferedConnectPassword_def and_then_def Let_def)
next
  case False
  from short full have m: "min (length chunk) (length (requestSocketPassword ext) - length bytes)
      = length (requestSocketPassword ext) - length bytes"
    by simp
  from short good have g: "bytes @ take (length (requestSocketPassword ext) - length bytes) chunk
      = requestSocketPassword ext"
    by simp
  from False fresh short full show ?thesis
    by (simp add: onClientRealData_switch_def password_buffered_def password_accepted_def
        state_stillReadingConnectPassword_onClientData_def checkConnectPassword_def
        freeBufferedConnectPassword_def and_then_def Let_def m g)
qed

text \<open>The chunk that completes the password, when the bytes are not the password.\<close>

lemma password_chunk_rejected:
  assumes fresh: "state client = BEGIN_READING_CONNECT_PASSWORD"
      "bufferedConnectPassword_data client = None"
      "bufferedConnectPassword_alreadyRead client = 0"
    and conn: "connected client"
    and short: "length bytes < length (requestSocketPassword ext)"
    and full: "length (requestSocketPassword ext) \<le> length (bytes @ chunk)"
    and bad: "take (length (requestSocketPassword ext)) (bytes @ chunk) \<noteq> requestSocketPassword ext"
  shows "\<exists>client'.
           onClientRealData_switch ext pool wr (password_buffered client bytes) chunk
             = Inr (client', length (requestSocketPassword ext) - length bytes)
           \<and> state client' = DISCONNECTED \<and> \<not> connected client'
           \<and> logged client' = logged client
                @ [TRACE 2 (''Given connect password: ''
                     @ take (length (requestSocketPassword ext)) (bytes @ chunk)),
                   WARN ''Disconnecting with error: wrong connect password'']"
proof -
  define traced where "traced =
    (if bytes = [] then client
     else (password_buffered client bytes)
       \<lparr>bufferedConnectPassword_data :=
          Some (bytes @ take (length (requestSocketPassword ext) - length bytes) chunk),
        bufferedConnectPassword_alreadyRead := length (requestSocketPassword ext)\<rparr>)
      \<lparr>logged := logged client
         @ [TRACE 2 (''Given connect password: ''
              @ take (length (requestSocketPassword ext)) (bytes @ chunk))]\<rparr>"
  have sw: "onClientRealData_switch ext pool wr (password_buffered client bytes) chunk
      = and_then (disconnectWithError traced ''wrong connect password'')
          (\<lambda>client'. Inr (client', length (requestSocketPassword ext) - length bytes))"
  proof (cases "bytes = []")
    case True
    with fresh full bad show ?thesis
      by (simp add: onClientRealData_switch_def password_buffered_def traced_def
          state_beginReadingConnectPassword_onClientData_def checkConnectPassword_def Let_def)
  next
    case False
    from short full have m: "min (length chunk) (length (requestSocketPassword ext) - length bytes)
        = length (requestSocketPassword ext) - length bytes"
      by simp
    from short bad have g: "bytes @ take (length (requestSocketPassword ext) - length bytes) chunk
        \<noteq> requestSocketPassword ext"
      by simp
    from short have t: "take (length (requestSocketPassword ext)) (bytes @ chunk)
        = bytes @ take (length (requestSocketPassword ext) - length bytes) chunk"
      by simp
    from False fresh short full show ?thesis
      by (simp add: onClientRealData_switch_def password_buffered_def traced_def
          state_stillReadingConnectPassword_onClientData_def checkConnectPassword_def
          and_then_def Let_def m g t)
  qed
  from conn have "requestHandler traced"
    by (simp add: traced_def password_buffered_def connected_def)
  from disconnectWithError_connected [OF this, of "''wrong connect password''"]
  obtain client' where d:
    "disconnectWithError traced ''wrong connect password'' = Inr client'"
    "state client' = DISCONNECTED" "\<not> requestHandler client'"
    "logged client' = logged traced @ [WARN (''Disconnecting with error: '' @ ''wrong connect password'')]"
    by blast
  have "logged traced = logged client
      @ [TRACE 2 (''Given connect password: ''
           @ take (length (requestSocketPassword ext)) (bytes @ chunk))]"
    by (simp add: traced_def)
  with d sw show ?thesis
    by (intro exI [of _ client']) (simp add: and_then_def connected_def)
qed

lemma client_events_append:
  "client_events ext pool (evs @ evs') w =
     (case client_events ext pool evs w of
        None \<Rightarrow> None
      | Some (Inl f) \<Rightarrow> Some (Inl f)
      | Some (Inr w') \<Rightarrow> client_events ext pool evs' w')"
  by (induction evs arbitrary: w) (auto split: option.splits sum.splits)

text \<open>A chunk that leaves the password incomplete, as the reader delivers it.\<close>

lemma password_chunk_delivered:
  assumes fresh: "state client = BEGIN_READING_CONNECT_PASSWORD"
      "bufferedConnectPassword_data client = None"
      "bufferedConnectPassword_alreadyRead client = 0"
    and conn: "connected client" "clientInput_started client"
    and "chunk \<noteq> []"
    and short: "length (bytes @ chunk) < length (requestSocketPassword ext)"
  shows "onClientInputData ext pool wrs (password_buffered client bytes) chunk
           = Some (Inr (password_buffered client (bytes @ chunk), length chunk))"
proof -
  note f = password_buffered_fields [OF fresh]
  have "onClientRealData_loop ext pool wrs (password_buffered client bytes) chunk 0
      = onClientRealData_loop ext pool wrs (password_buffered client (bytes @ chunk)) chunk
          (length chunk)"
    by (rule loop_first_round)
       (simp_all add: f conn \<open>chunk \<noteq> []\<close> password_chunk_buffered [OF fresh \<open>chunk \<noteq> []\<close> short])
  also have "\<dots> = Some (Inr (password_buffered client (bytes @ chunk), length chunk))"
    by (rule loop_done) simp
  finally show ?thesis
    using conn \<open>chunk \<noteq> []\<close> by (simp add: onClientInputData_def onClientRealData_def f)
qed

lemma password_chunks_buffered:
  assumes fresh: "state client = BEGIN_READING_CONNECT_PASSWORD"
      "bufferedConnectPassword_data client = None"
      "bufferedConnectPassword_alreadyRead client = 0"
    and conn: "connected client" "clientInput_started client"
  shows "\<forall>chunk \<in> set chunks. chunk \<noteq> [] \<Longrightarrow>
         length (concat chunks) < length (requestSocketPassword ext) \<Longrightarrow>
         client_events ext pool (map (\<lambda>chunk. ClientSends chunk wrs) chunks) (client, [])
           = Some (Inr (password_buffered client (concat chunks), []))"
proof (induction chunks rule: rev_induct)
  case Nil
  show ?case
    by (simp add: password_buffered_def)
next
  case (snoc chunk chunks)
  from snoc.prems have c: "chunk \<noteq> []" "\<forall>chunk \<in> set chunks. chunk \<noteq> []"
    and s: "length (concat chunks @ chunk) < length (requestSocketPassword ext)"
      "length (concat chunks) < length (requestSocketPassword ext)"
    by simp_all
  note f = password_buffered_fields [OF fresh]
  from password_chunk_delivered [OF fresh conn c(1) s(1), of pool wrs] conn c(1)
  have "client_event ext pool (ClientSends chunk wrs) (password_buffered client (concat chunks), [])
      = Some (Inr (password_buffered client (concat chunks @ chunk), []))"
    by (simp add: clientInput_deliver_def f and_then_def)
  with snoc.IH [OF c(2) s(2)] show ?case
    by (simp add: client_events_append)
qed

text \<open>
  C5. A client that begins to read the connect password receives its input in the chunks
  \<open>chunks\<close>, none empty, that together hold fewer bytes than the password, and then the
  chunk \<open>chunk\<close> that makes the bytes reach the length of the password. The chunks of
  \<open>chunks\<close> are consumed and buffered, and nothing is compared: the log, where
  \<^verbatim>\<open>checkConnectPassword\<close> traces every comparison, is as before. On \<open>chunk\<close> the first bytes
  received, as many as the password has, are compared once with the password. If they
  are equal, the client reads the header from the rest of \<open>chunk\<close>, in the state
  \<open>READING_HEADER\<close> with the timer stopped; if not, the client is disconnected.
\<close>

theorem connect_password_in_chunks:
  assumes fresh: "state client = BEGIN_READING_CONNECT_PASSWORD"
      "bufferedConnectPassword_data client = None"
      "bufferedConnectPassword_alreadyRead client = 0"
    and conn: "connected client" "clientInput_started client"
    and nonempty: "\<forall>chunk \<in> set chunks. chunk \<noteq> []"
    and short: "length (concat chunks) < length (requestSocketPassword ext)"
    and full: "length (requestSocketPassword ext) \<le> length (concat chunks @ chunk)"
  shows "client_events ext pool (map (\<lambda>chunk. ClientSends chunk wrs) chunks) (client, [])
           = Some (Inr (password_buffered client (concat chunks), []))
         \<and> logged (password_buffered client (concat chunks)) = logged client
         \<and> (if take (length (requestSocketPassword ext)) (concat chunks @ chunk)
                 = requestSocketPassword ext
            then onClientInputData ext pool wrs (password_buffered client (concat chunks)) chunk
                   = onClientRealData_loop ext pool wrs (password_accepted ext client) chunk
                       (length (requestSocketPassword ext) - length (concat chunks))
                 \<and> state (password_accepted ext client) = READING_HEADER
                 \<and> \<not> timeoutTimer_active (password_accepted ext client)
                 \<and> logged (password_accepted ext client) = logged client
                      @ [TRACE 2 (''Given connect password: '' @ requestSocketPassword ext)]
            else \<exists>client'.
                   onClientInputData ext pool wrs (password_buffered client (concat chunks)) chunk
                     = Some (Inr (client',
                          length (requestSocketPassword ext) - length (concat chunks)))
                 \<and> state client' = DISCONNECTED \<and> \<not> connected client'
                 \<and> logged client' = logged client
                      @ [TRACE 2 (''Given connect password: ''
                           @ take (length (requestSocketPassword ext)) (concat chunks @ chunk)),
                         WARN ''Disconnecting with error: wrong connect password''])"
proof -
  let ?buffered = "password_buffered client (concat chunks)"
  let ?k = "length (requestSocketPassword ext) - length (concat chunks)"
  note f = password_buffered_fields [OF fresh]
  from short full have chunk: "chunk \<noteq> []" and k: "?k \<le> length chunk"
    by auto
  have first: "onClientInputData ext pool wrs ?buffered chunk
      = onClientRealData_loop ext pool wrs ?buffered chunk 0"
    using conn chunk by (simp add: onClientInputData_def onClientRealData_def f)
  have buffered: "client_events ext pool (map (\<lambda>chunk. ClientSends chunk wrs) chunks) (client, [])
      = Some (Inr (?buffered, []))"
    by (rule password_chunks_buffered [OF fresh conn nonempty short])
  have unlogged: "logged ?buffered = logged client"
    by (simp add: password_buffered_def)
  have last: "if take (length (requestSocketPassword ext)) (concat chunks @ chunk)
                 = requestSocketPassword ext
            then onClientInputData ext pool wrs ?buffered chunk
                   = onClientRealData_loop ext pool wrs (password_accepted ext client) chunk ?k
                 \<and> state (password_accepted ext client) = READING_HEADER
                 \<and> \<not> timeoutTimer_active (password_accepted ext client)
                 \<and> logged (password_accepted ext client) = logged client
                      @ [TRACE 2 (''Given connect password: '' @ requestSocketPassword ext)]
            else \<exists>client'.
                   onClientInputData ext pool wrs ?buffered chunk = Some (Inr (client', ?k))
                 \<and> state client' = DISCONNECTED \<and> \<not> connected client'
                 \<and> logged client' = logged client
                      @ [TRACE 2 (''Given connect password: ''
                           @ take (length (requestSocketPassword ext)) (concat chunks @ chunk)),
                         WARN ''Disconnecting with error: wrong connect password'']"
  proof (cases "take (length (requestSocketPassword ext)) (concat chunks @ chunk)
                 = requestSocketPassword ext")
    case True
    have "onClientRealData_loop ext pool wrs ?buffered chunk 0
        = onClientRealData_loop ext pool wrs (password_accepted ext client) chunk ?k"
      by (rule loop_first_round)
         (simp_all add: f conn chunk k password_chunk_accepted [OF fresh short full True])
    with first have "onClientInputData ext pool wrs ?buffered chunk
        = onClientRealData_loop ext pool wrs (password_accepted ext client) chunk ?k"
      by (simp only:)
    moreover have "state (password_accepted ext client) = READING_HEADER"
      "\<not> timeoutTimer_active (password_accepted ext client)"
      "logged (password_accepted ext client) = logged client
         @ [TRACE 2 (''Given connect password: '' @ requestSocketPassword ext)]"
      by (simp_all add: password_accepted_def)
    ultimately show ?thesis
      using True by (simp only: if_True simp_thms)
  next
    case False
    from password_chunk_rejected [OF fresh conn(1) short full False, where pool = pool
        and wr = "case wrs of [] \<Rightarrow> Wrote (length chunk) | w # ws \<Rightarrow> w"]
    obtain client' where r:
      "onClientRealData_switch ext pool (case wrs of [] \<Rightarrow> Wrote (length chunk) | w # ws \<Rightarrow> w)
         ?buffered chunk = Inr (client', ?k)"
      "state client' = DISCONNECTED" "\<not> connected client'"
      "logged client' = logged client
         @ [TRACE 2 (''Given connect password: ''
              @ take (length (requestSocketPassword ext)) (concat chunks @ chunk)),
            WARN ''Disconnecting with error: wrong connect password'']"
      by (elim exE conjE) (rule that)
    have "onClientRealData_loop ext pool wrs ?buffered chunk 0
        = onClientRealData_loop ext pool wrs client' chunk ?k"
      by (rule loop_first_round) (simp_all add: f conn chunk k r(1))
    also have "\<dots> = Some (Inr (client', ?k))"
      by (rule loop_done) (simp add: r(3))
    finally have "onClientInputData ext pool wrs ?buffered chunk = Some (Inr (client', ?k))"
      using first by (simp only:)
    with r(2-4) have "\<exists>client'.
        onClientInputData ext pool wrs ?buffered chunk = Some (Inr (client', ?k))
        \<and> state client' = DISCONNECTED \<and> \<not> connected client'
        \<and> logged client' = logged client
             @ [TRACE 2 (''Given connect password: ''
                  @ take (length (requestSocketPassword ext)) (concat chunks @ chunk)),
                WARN ''Disconnecting with error: wrong connect password'']"
      by (intro exI [of _ client'] conjI)
    with False show ?thesis
      by (simp only: if_False)
  qed
  from buffered unlogged last show ?thesis
    by (intro conjI)
qed

text \<open>The password of the example in fragments of one byte.\<close>

lemma example_client_password_hyps:
  "state example_client = BEGIN_READING_CONNECT_PASSWORD"
  "bufferedConnectPassword_data example_client = None"
  "bufferedConnectPassword_alreadyRead example_client = 0"
  "connected example_client" "clientInput_started example_client"
  "requestSocketPassword example_ext = ''secret''"
  by (simp_all add: example_client_def new_Client_def resetPrimitiveFields_def
      freeBufferedConnectPassword_def connected_def example_ext_def example_ext_with_def)

theorem connect_password_in_chunks_witness:
  "client_events example_ext []
     (map (\<lambda>chunk. ClientSends chunk []) [''s'', ''e'', ''c'', ''r'', ''e''])
     (example_client, [])
     = Some (Inr (password_buffered example_client ''secre'', []))
   \<and> onClientInputData example_ext [] [] (password_buffered example_client ''secre'') ''t''
     = Some (Inr (password_accepted example_ext example_client, 1))
   \<and> state (password_accepted example_ext example_client) = READING_HEADER
   \<and> \<not> timeoutTimer_active (password_accepted example_ext example_client)"
proof -
  note h = example_client_password_hyps
  have "\<forall>chunk \<in> set [''s'', ''e'', ''c'', ''r'', ''e'']. chunk \<noteq> []"
    by simp
  moreover have "length (concat [''s'', ''e'', ''c'', ''r'', ''e''])
      < length (requestSocketPassword example_ext)"
    by (simp add: h(6))
  moreover have "length (requestSocketPassword example_ext)
      \<le> length (concat [''s'', ''e'', ''c'', ''r'', ''e''] @ ''t'')"
    by (simp add: h(6))
  ultimately have t: "client_events example_ext []
     (map (\<lambda>chunk. ClientSends chunk []) [''s'', ''e'', ''c'', ''r'', ''e''])
     (example_client, [])
     = Some (Inr (password_buffered example_client (concat [''s'', ''e'', ''c'', ''r'', ''e'']), []))"
    "onClientInputData example_ext [] []
       (password_buffered example_client (concat [''s'', ''e'', ''c'', ''r'', ''e''])) ''t''
     = onClientRealData_loop example_ext [] [] (password_accepted example_ext example_client) ''t''
         (length (requestSocketPassword example_ext)
            - length (concat [''s'', ''e'', ''c'', ''r'', ''e'']))"
    "state (password_accepted example_ext example_client) = READING_HEADER"
    "\<not> timeoutTimer_active (password_accepted example_ext example_client)"
    using connect_password_in_chunks [OF h(1-5), of "[''s'', ''e'', ''c'', ''r'', ''e'']"
        example_ext "''t''" "[]" "[]"]
    by (simp_all add: h(6))
  have l: "onClientRealData_loop example_ext [] [] (password_accepted example_ext example_client)
      ''t'' 1 = Some (Inr (password_accepted example_ext example_client, 1))"
    by (rule loop_done) simp
  from t l show ?thesis
    by (simp add: h(6))
qed

subsection \<open>The status line of the response\<close>




















end
